theory Spec2Isabelle
  imports Main
begin

section \<open>Strings as JavaScript uses them\<close>

text \<open>
  Paths are JavaScript strings, modelled as \<open>char list\<close>.  The backslash cannot be written
  inside a string literal, so it gets a name.  \<open>sep\<close> is \<open>path.sep\<close> of \<open>path.win32\<close>.
\<close>

definition bslash :: char where
  "bslash = CHR 0x5C"

definition sep :: string where
  "sep = [bslash]"

text \<open>\<open>s.endsWith(t)\<close>, \<open>s.startsWith(t)\<close> and \<open>s.includes(t)\<close>.\<close>

definition endsWith :: "string \<Rightarrow> string \<Rightarrow> bool" where
  "endsWith s t \<longleftrightarrow> take (length t) (rev s) = rev t"

definition startsWith :: "string \<Rightarrow> string \<Rightarrow> bool" where
  "startsWith s t \<longleftrightarrow> take (length t) s = t"

fun str_includes :: "string \<Rightarrow> string \<Rightarrow> bool" where
  "str_includes [] t = (t = [])"
| "str_includes (c # cs) t = (startsWith (c # cs) t \<or> str_includes cs t)"

text \<open>\<open>s.toLowerCase()\<close> on the ASCII letters (other bytes are left alone).\<close>

definition lowerChar :: "char \<Rightarrow> char" where
  "lowerChar c =
     (let n = (of_char c :: nat) in if 65 \<le> n \<and> n \<le> 90 then char_of (n + 32) else c)"

definition toLowerCase :: "string \<Rightarrow> string" where
  "toLowerCase s = map lowerChar s"

text \<open>\<open>s.split(c)\<close> for a one-character separator: \<open>n\<close> separators give \<open>n + 1\<close> pieces.\<close>

fun splitBy :: "(char \<Rightarrow> bool) \<Rightarrow> string \<Rightarrow> string list" where
  "splitBy P [] = [[]]"
| "splitBy P (c # cs) =
     (if P c then [] # splitBy P cs
      else (case splitBy P cs of [] \<Rightarrow> [[c]] | s # ss \<Rightarrow> (c # s) # ss))"

definition split_sep :: "string \<Rightarrow> string list" where
  "split_sep s = splitBy (\<lambda>c. c = bslash) s"

text \<open>\<open>xs.join(t)\<close>.\<close>

fun joinWith :: "string \<Rightarrow> string list \<Rightarrow> string" where
  "joinWith t [] = []"
| "joinWith t [x] = x"
| "joinWith t (x # y # ys) = x @ t @ joinWith t (y # ys)"


section \<open>The \<open>path.win32\<close> functions of Node\<close>

text \<open>
  The installers call \<open>path.win32\<close> (\<open>const path = win32\<close>).  The functions below follow
  Node's \<open>lib/path.js\<close>: both \<open>/\<close> and \<open>\\<close> separate segments, a leading letter and
  colon is a drive, and two leading separators may start a UNC root.
\<close>

definition isPathSeparator :: "char \<Rightarrow> bool" where
  "isPathSeparator c \<longleftrightarrow> c = CHR ''/'' \<or> c = bslash"

definition isWindowsDeviceRoot :: "char \<Rightarrow> bool" where
  "isWindowsDeviceRoot c \<longleftrightarrow>
     (let n = (of_char c :: nat) in (65 \<le> n \<and> n \<le> 90) \<or> (97 \<le> n \<and> n \<le> 122))"

fun hasDrive :: "string \<Rightarrow> bool" where
  "hasDrive (c # d # _) = (isWindowsDeviceRoot c \<and> d = CHR '':'')"
| "hasDrive _ = False"

text \<open>What \<open>basename\<close> and \<open>extname\<close> scan: the path after a drive prefix.\<close>

definition afterDrive :: "string \<Rightarrow> string" where
  "afterDrive p = (if hasDrive p then drop 2 p else p)"

text \<open>The separators that end a path, in the order they stand there.\<close>

definition trailingSeps :: "string \<Rightarrow> string" where
  "trailingSeps s = rev (takeWhile isPathSeparator (rev s))"

text \<open>The last segment: trailing separators are skipped, then everything back to the
  previous separator is taken.\<close>

definition lastComponent :: "string \<Rightarrow> string" where
  "lastComponent s =
     rev (takeWhile (\<lambda>c. \<not> isPathSeparator c) (dropWhile isPathSeparator (rev s)))"

text \<open>\<open>path.basename(p)\<close>.\<close>

definition basename :: "string \<Rightarrow> string" where
  "basename p = lastComponent (afterDrive p)"

text \<open>
  \<open>path.basename(p, suffix)\<close>.  The suffix is cut from the last segment when that segment
  ends with it and is longer than it.  Node's scan has two more outcomes: a path equal to
  the suffix gives the empty string, and a last segment that is a proper end of the suffix
  is returned together with the separators that follow it.
\<close>

definition basenameExt :: "string \<Rightarrow> string \<Rightarrow> string" where
  "basenameExt p suffix =
     (if suffix = [] \<or> length p < length suffix then basename p
      else if suffix = p then []
      else
        (let t = afterDrive p; b = lastComponent t in
         if endsWith b suffix then
           (if b = suffix then b else take (length b - length suffix) b)
         else if endsWith suffix b then b @ trailingSeps t
         else b))"

text \<open>
  \<open>path.extname(p)\<close>: from the last dot of the last segment, unless there is no dot, the
  only dot is the segment's first character, or the segment is \<open>..\<close>.
\<close>

definition extname :: "string \<Rightarrow> string" where
  "extname p =
     (let b = lastComponent (afterDrive p);
          e = takeWhile (\<lambda>c. c \<noteq> CHR ''.'') (rev b)
      in if CHR ''.'' \<notin> set b \<or> Suc (length e) = length b \<or> b = ''..'' then []
         else CHR ''.'' # rev e)"

text \<open>
  The UNC root scan shared by \<open>dirname\<close> and \<open>normalize_path\<close>, for a path that starts with two
  separators: a server name, separators, a share name.  \<open>UncOnly\<close> when the path ends
  with the share name, \<open>UncRoot j\<close> when the share name ends at index \<open>j\<close> before the end.
\<close>

datatype unc = NoUnc | UncOnly string string | UncRoot nat string string

definition uncScan :: "string \<Rightarrow> unc" where
  "uncScan p =
     (let len = length p;
          server = takeWhile (\<lambda>c. \<not> isPathSeparator c) (drop 2 p);
          j1 = 2 + length server
      in if j1 < len \<and> j1 \<noteq> 2 then
           (let j2 = j1 + length (takeWhile isPathSeparator (drop j1 p)) in
            if j2 < len \<and> j2 \<noteq> j1 then
              (let share = takeWhile (\<lambda>c. \<not> isPathSeparator c) (drop j2 p);
                   j3 = j2 + length share
               in if j3 = len then UncOnly server share
                  else if j3 \<noteq> j2 then UncRoot j3 server share
                  else NoUnc)
            else NoUnc)
         else NoUnc)"

text \<open>
  \<open>path.dirname(p)\<close>.  After the root (\<open>offset\<close>), the scan from the right skips trailing
  separators and the last segment and stops at the separator before it.
\<close>

definition dirnameFrom :: "nat option \<Rightarrow> nat \<Rightarrow> string \<Rightarrow> string" where
  "dirnameFrom rootEnd offset p =
     (let r = dropWhile (\<lambda>c. \<not> isPathSeparator c)
                (dropWhile isPathSeparator (rev (drop offset p)))
      in if r = [] then (case rootEnd of None \<Rightarrow> ''.'' | Some e \<Rightarrow> take e p)
         else take (offset + length r - 1) p)"

definition dirname :: "string \<Rightarrow> string" where
  "dirname p =
     (case p of
        [] \<Rightarrow> ''.''
      | [c] \<Rightarrow> (if isPathSeparator c then p else ''.'')
      | c # d # _ \<Rightarrow>
          if isPathSeparator c then
            (if isPathSeparator d then
               (case uncScan p of
                  UncOnly _ _ \<Rightarrow> p
                | UncRoot j _ _ \<Rightarrow> dirnameFrom (Some (j + 1)) (j + 1) p
                | NoUnc \<Rightarrow> dirnameFrom (Some 1) 1 p)
             else dirnameFrom (Some 1) 1 p)
          else if isWindowsDeviceRoot c \<and> d = CHR '':'' then
            (let e = (if 2 < length p \<and> isPathSeparator (p ! 2) then 3 else 2)
             in dirnameFrom (Some e) e p)
          else dirnameFrom None 0 p)"

text \<open>
  \<open>normalizeString\<close>: the segments between separators are pushed on a stack; empty
  segments and \<open>.\<close> are skipped; \<open>..\<close> pops a segment that is not itself \<open>..\<close>, and is
  kept only where going above the root is allowed.
\<close>

definition normStep :: "bool \<Rightarrow> string list \<Rightarrow> string \<Rightarrow> string list" where
  "normStep allowAboveRoot st seg =
     (if seg = [] \<or> seg = ''.'' then st
      else if seg = ''..'' then
        (if st \<noteq> [] \<and> last st \<noteq> ''..'' then butlast st
         else if allowAboveRoot then st @ [''..''] else st)
      else st @ [seg])"

definition normalizeString :: "string \<Rightarrow> bool \<Rightarrow> string" where
  "normalizeString p allowAboveRoot =
     joinWith sep (foldl (normStep allowAboveRoot) [] (splitBy isPathSeparator p))"

text \<open>\<open>path.normalize(p)\<close>.\<close>

definition normalizeTail :: "string \<Rightarrow> nat \<Rightarrow> bool \<Rightarrow> string" where
  "normalizeTail p rootEnd isAbsolute =
     (let t0 = (if rootEnd < length p then normalizeString (drop rootEnd p) (\<not> isAbsolute)
                else []);
          t1 = (if t0 = [] \<and> \<not> isAbsolute then ''.'' else t0)
      in if t1 \<noteq> [] \<and> isPathSeparator (last p) then t1 @ sep else t1)"

definition normalize_path :: "string \<Rightarrow> string" where
  "normalize_path p =
     (case p of
        [] \<Rightarrow> ''.''
      | [c] \<Rightarrow> (if c = CHR ''/'' then sep else p)
      | c # d # _ \<Rightarrow>
          if isPathSeparator c then
            (if isPathSeparator d then
               (case uncScan p of
                  UncOnly server share \<Rightarrow> sep @ sep @ server @ sep @ share @ sep
                | UncRoot j server share \<Rightarrow>
                    sep @ sep @ server @ sep @ share @ sep @ normalizeTail p j True
                | NoUnc \<Rightarrow> sep @ normalizeTail p 0 True)
             else sep @ normalizeTail p 1 True)
          else if isWindowsDeviceRoot c \<and> d = CHR '':'' then
            (if 2 < length p \<and> isPathSeparator (p ! 2)
             then [c, d] @ sep @ normalizeTail p 3 True
             else [c, d] @ normalizeTail p 2 False)
          else normalizeTail p 0 False)"

text \<open>
  \<open>path.join(...parts)\<close>: the non-empty parts are joined with \<open>\\<close>; unless the first part
  starts with exactly two separators, a run of two or more leading separators is
  replaced by one; the result is normalized.
\<close>

definition joinNeedsReplace :: "string \<Rightarrow> bool" where
  "joinNeedsReplace firstPart =
     (case firstPart of
        c # d # e # _ \<Rightarrow> \<not> (isPathSeparator c \<and> isPathSeparator d \<and> \<not> isPathSeparator e)
      | _ \<Rightarrow> True)"

definition join :: "string list \<Rightarrow> string" where
  "join parts =
     (case filter (\<lambda>a. a \<noteq> []) parts of
        [] \<Rightarrow> ''.''
      | firstPart # rest \<Rightarrow>
          (let joined = joinWith sep (firstPart # rest);
               slashCount = length (takeWhile isPathSeparator joined);
               joined' = (if joinNeedsReplace firstPart \<and> 2 \<le> slashCount
                          then sep @ drop slashCount joined else joined)
           in normalize_path joined'))"


section \<open>Instructions, results and effects\<close>

text \<open>
  A \<open>VortexInstruction\<close> is \<open>{type: "copy", source, destination}\<close>,
  \<open>{type: "generatefile", data, destination}\<close> or \<open>{type: "mkdir", destination}\<close>.
\<close>

datatype VortexInstruction =
    Copy (source: string) (destination: string)
  | GenerateFile (data: string) (destination: string)
  | Mkdir (destination: string)

fun isCopy :: "VortexInstruction \<Rightarrow> bool" where
  "isCopy (Copy _ _) = True"
| "isCopy _ = False"

record VortexTestResult =
  supported :: bool
  requiredFiles :: "string list"

text \<open>
  An installer returns a promise or throws.  \<open>Resolve\<close> and \<open>Reject\<close> are the two ways the
  promise settles (the rejection carries the message of its \<open>Error\<close>); \<open>Throw\<close> is an
  exception raised before any promise is made.  A \<open>VortexInstallResult\<close> is
  \<open>{instructions}\<close> and is modelled by the instruction list itself.
\<close>

datatype 'a outcome = Resolve 'a | Reject string | Throw string

text \<open>
  What a call does besides returning: log lines (level and message; the payload is left
  out), dialogs and notifications.  The dialog helpers of \<open>./dialogs\<close> are recorded as
  the calls the installers make.
\<close>

datatype level = Debug | Info | Warn | Error

datatype effect =
    Log level string
  | ShowDialog string string
  | FallbackInstallerReachedErrorDialog string "string list" "VortexInstruction list"
  | ShowArchiveStructureErrorDialog string "string list"
  | ShowArchiveInstallWarning bool bool "string list"
  | ShowArchiveInstallWarningFor string bool bool bool "string list"
  | ShowInfoNotification string string

fun isLog :: "effect \<Rightarrow> bool" where
  "isLog (Log _ _) = True"
| "isLog _ = False"

text \<open>The effects a user sees: everything but the log.\<close>

definition surfaced :: "effect list \<Rightarrow> effect list" where
  "surfaced es = filter (\<lambda>e. \<not> isLog e) es"


section \<open>Constants of \<open>installers.ts\<close>\<close>

definition GAME_ID :: string where
  "GAME_ID = ''cyberpunk2077''"

definition CET_MOD_CANONICAL_INIT_FILE :: string where
  "CET_MOD_CANONICAL_INIT_FILE = ''init.lua''"

definition CET_MOD_CANONICAL_PATH_PREFIX :: string where
  "CET_MOD_CANONICAL_PATH_PREFIX = normalize_path ''bin/x64/plugins/cyber_engine_tweaks/mods''"

definition REDS_MOD_CANONICAL_EXTENSION :: string where
  "REDS_MOD_CANONICAL_EXTENSION = ''.reds''"

definition REDS_MOD_CANONICAL_PATH_PREFIX :: string where
  "REDS_MOD_CANONICAL_PATH_PREFIX = normalize_path ''r6/scripts''"

definition ARCHIVE_ONLY_CANONICAL_EXT :: string where
  "ARCHIVE_ONLY_CANONICAL_EXT = ''.archive''"

definition ARCHIVE_ONLY_CANONICAL_PREFIX :: string where
  "ARCHIVE_ONLY_CANONICAL_PREFIX = normalize_path ''archive/pc/mod/''"

definition ARCHIVE_ONLY_TRADITIONAL_WRONG_PREFIX :: string where
  "ARCHIVE_ONLY_TRADITIONAL_WRONG_PREFIX = normalize_path ''archive/pc/patch/''"

definition MOD_FILE_EXT :: string where
  "MOD_FILE_EXT = ''.archive''"

definition INI_MOD_PATH :: string where
  "INI_MOD_PATH = join [''engine'', ''config'', ''platform'', ''pc'']"

definition INI_MOD_EXT :: string where
  "INI_MOD_EXT = ''.ini''"

definition RESHADE_MOD_PATH :: string where
  "RESHADE_MOD_PATH = join [''bin'', ''x64'']"

definition SHADERS_DIR :: string where
  "SHADERS_DIR = ''reshade-shaders''"

definition CET_GLOBAL_INI :: string where
  "CET_GLOBAL_INI = normalize_path ''bin/x64/global.ini''"

definition JSON_FILE_EXT :: string where
  "JSON_FILE_EXT = ''.json''"

text \<open>
  \<open>KNOWN_JSON_FILES[name]\<close>, \<open>None\<close> for \<open>undefined\<close>.  The installers look up basenames of
  files with an extension only, which never name an inherited property of the object.
\<close>

definition KNOWN_JSON_FILES :: "string \<Rightarrow> string option" where
  "KNOWN_JSON_FILES name =
     (if name = ''giweights.json'' then Some (join [''engine'', ''config'', ''giweights.json''])
      else if name = ''bumpersSettings.json''
        then Some (join [''r6'', ''config'', ''bumpersSettings.json''])
      else None)"

definition makeModName :: "string \<Rightarrow> string" where
  "makeModName vortexDestinationPath = basenameExt vortexDestinationPath ''.installing''"

definition unsupportedResult :: VortexTestResult where
  "unsupportedResult = \<lparr>supported = False, requiredFiles = []\<rparr>"

definition supportedResult :: VortexTestResult where
  "supportedResult = \<lparr>supported = True, requiredFiles = []\<rparr>"


section \<open>Source to destination pairs\<close>

definition toSamePath :: "string \<Rightarrow> string \<times> string" where
  "toSamePath f = (f, f)"

definition toDirInPath :: "string \<Rightarrow> string \<Rightarrow> string \<Rightarrow> string \<times> string" where
  "toDirInPath prefixPath dir f = (f, join [prefixPath, dir, basename f])"

text \<open>
  \<open>instructionsForSourceToDestPairs\<close>: the pairs whose source ends with the separator
  (folders) are dropped, every other pair becomes a copy.  The line that would have
  removed duplicates is commented out in the source.
\<close>

definition instructionsForSourceToDestPairs ::
  "(string \<times> string) list \<Rightarrow> VortexInstruction list" where
  "instructionsForSourceToDestPairs srcAndDestPairs =
     (let justTheRegularFiles = filter (\<lambda>(src, _). \<not> endsWith src sep) srcAndDestPairs
      in map (\<lambda>(src, dst). Copy src dst) justTheRegularFiles)"

definition instructionsForSameSourceAndDestPaths :: "string list \<Rightarrow> VortexInstruction list" where
  "instructionsForSameSourceAndDestPaths files =
     instructionsForSourceToDestPairs (map toSamePath files)"


section \<open>The fallback installer\<close>

definition testAnyOtherModFallback ::
  "string list \<Rightarrow> string \<Rightarrow> VortexTestResult outcome \<times> effect list" where
  "testAnyOtherModFallback files gameId =
     (let correctGame = (gameId = GAME_ID);
          logs = [Log Debug ''Fallback installer received Files: '',
                  Log Info ''Entering fallback installer: '']
      in if \<not> correctGame then (Resolve unsupportedResult, logs)
         else (Resolve supportedResult, logs))"

definition fallbackMessage :: string where
  "fallbackMessage =
     ''The Fallback installer was reached.  The mod has been installed, but may not function as expected.''"

definition installAnyModWithBasicFixes ::
  "string list \<Rightarrow> string \<Rightarrow> VortexInstruction list outcome \<times> effect list" where
  "installAnyModWithBasicFixes files destinationPath =
     (let instructions = [] @ instructionsForSameSourceAndDestPaths files
      in (Resolve instructions,
          [Log Info ''Fallback installer. Copying 1:1: '',
           FallbackInstallerReachedErrorDialog fallbackMessage files instructions]))"


section \<open>The JSON installer\<close>

definition jsonOptionsMessage :: string where
  "jsonOptionsMessage =
     ''Improperly located options.json file found.  We don'' @ [CHR 0x27] @
     ''t know where it belongs.''"

definition jsonUnknownMessage :: string where
  "jsonUnknownMessage =
     ''Found JSON files that aren'' @ [CHR 0x27] @ ''t part of the game.''"

definition testForJsonMod ::
  "string list \<Rightarrow> string \<Rightarrow> VortexTestResult outcome \<times> effect list" where
  "testForJsonMod files gameId =
     (let correctGame = (gameId = GAME_ID);
          l0 = [Log Info ''Checking JSON files for game: '']
      in if \<not> correctGame then (Resolve unsupportedResult, l0)
         else
          (let filtered = filter (\<lambda>file. toLowerCase (extname file) = JSON_FILE_EXT) files
           in if length filtered = 0
              then (Resolve unsupportedResult, l0 @ [Log Info ''No JSON files''])
              else
               (let cetModJson =
                      filter (\<lambda>file. toLowerCase (basename file) = CET_MOD_CANONICAL_INIT_FILE)
                        files
                in if length cetModJson \<noteq> 0
                   then (Resolve unsupportedResult,
                         l0 @ [Log Error ''We somehow got a CET mod in the JSON check''])
                   else
                    (let options = list_ex (\<lambda>file. basename file = ''options.json'') filtered
                     in if options then
                          (let l1 = l0 @ [Log Debug ''Options.json files found: ''];
                               proper =
                                 list_ex
                                   (\<lambda>f. startsWith (toLowerCase (dirname f))
                                          (normalize_path ''r6/config/settings''))
                                   filtered
                           in if \<not> proper
                              then (Reject jsonOptionsMessage, l1 @ [Log Info jsonOptionsMessage])
                              else (Resolve supportedResult,
                                    l1 @ [Log Debug ''We got through it all and it is a JSON mod'']))
                        else if list_ex (\<lambda>file. KNOWN_JSON_FILES (basename file) = None) filtered
                        then (Reject jsonUnknownMessage, l0 @ [Log Error jsonUnknownMessage])
                        else (Resolve supportedResult,
                              l0 @ [Log Debug ''We got through it all and it is a JSON mod''])))))"

definition installJsonMod ::
  "string list \<Rightarrow> string \<Rightarrow> VortexInstruction list outcome \<times> effect list" where
  "installJsonMod files destinationPath =
     (let jsonFiles = filter (\<lambda>file. extname file = ''.json'') files;
          otherAllowedFiles =
            filter (\<lambda>file. extname file = ''.txt'' \<or> extname file = ''.md'') files;
          filtered = jsonFiles @ otherAllowedFiles;
          jsonFileInstructions =
            map (\<lambda>file.
                   (case KNOWN_JSON_FILES (basename file) of
                      Some instPath \<Rightarrow> Copy file instPath
                    | None \<Rightarrow> Copy file file))
              filtered;
          instPathLogs =
            concat (map (\<lambda>file.
                           (case KNOWN_JSON_FILES (basename file) of
                              Some instPath \<Rightarrow> [Log Debug ''instPath set as '']
                            | None \<Rightarrow> []))
                      filtered);
          movedJson =
            list_ex (\<lambda>file.
                       (case KNOWN_JSON_FILES (basename file) of
                          Some instPath \<Rightarrow> file \<noteq> instPath
                        | None \<Rightarrow> False))
              filtered;
          instructions = [] @ jsonFileInstructions
      in (Resolve instructions,
          [Log Info ''Installing JSON files: ''] @ instPathLogs @
          (if movedJson
           then [Log Info ''JSON files were found outside their canonical locations: Fixed'']
           else []) @
          [Log Debug ''Installing JSON files with: '']))"


section \<open>The INI installer\<close>

text \<open>
  The regular expression \<open>/^[\[#].+/\<close>: at the start of the text a \<open>[\<close> or \<open>#\<close>, then as
  many characters as possible, at least one, none of them a line terminator (line feed,
  carriage return, U+2028, U+2029; the last two as their UTF-8 bytes).
\<close>

definition isLineTerminatorAt :: "string \<Rightarrow> bool" where
  "isLineTerminatorAt s =
     (case s of
        [] \<Rightarrow> False
      | c # _ \<Rightarrow> c = CHR 0x0A \<or> c = CHR 0x0D
                 \<or> startsWith s [CHR 0xE2, CHR 0x80, CHR 0xA8]
                 \<or> startsWith s [CHR 0xE2, CHR 0x80, CHR 0xA9])"

fun dotRun :: "string \<Rightarrow> nat" where
  "dotRun [] = 0"
| "dotRun (c # cs) = (if isLineTerminatorAt (c # cs) then 0 else Suc (dotRun cs))"

definition reshadeRegexMatch :: "string \<Rightarrow> nat option" where
  "reshadeRegexMatch d =
     (case d of
        [] \<Rightarrow> None
      | c # cs \<Rightarrow>
          if (c = CHR ''['' \<or> c = CHR ''#'') \<and> 0 < dotRun cs then Some (Suc (dotRun cs))
          else None)"

text \<open>\<open>data.replace(/^[\[#].+/, "")\<close>.\<close>

definition replaceReshadeRegex :: "string \<Rightarrow> string" where
  "replaceReshadeRegex d = (case reshadeRegexMatch d of None \<Rightarrow> d | Some n \<Rightarrow> drop n d)"

text \<open>
  \<open>testForReshadeFile\<close>.  \<open>readFileSync\<close> is the file system: \<open>None\<close> where reading throws.
  \<open>path.join\<close> throws a \<open>TypeError\<close> when \<open>find\<close> gives \<open>undefined\<close>.  The result of
  \<open>data.slice(0, 80)\<close> is dropped by the source, and \<open>readFileSync\<close> with an encoding
  never returns \<open>undefined\<close>.  \<open>Inl\<close> is a thrown exception.
\<close>

definition testForReshadeFile ::
  "(string \<Rightarrow> string option) \<Rightarrow> string list \<Rightarrow> string \<Rightarrow> (string + bool) \<times> effect list" where
  "testForReshadeFile readFileSync files folder =
     (case find (\<lambda>file. extname file = INI_MOD_EXT) files of
        None \<Rightarrow> (Inl ''TypeError'', [])
      | Some file \<Rightarrow>
          (let fileToExamine = join [folder, file] in
           case readFileSync fileToExamine of
             None \<Rightarrow> (Inl ''readFileSync'', [])
           | Some d \<Rightarrow>
               (let testString = replaceReshadeRegex d in
                if testString = d then (Inr True, [Log Info ''Reshade file located.''])
                else (Inr False, []))))"

text \<open>
  \<open>file.replace(/.*reshade-shaders/, SHADERS_DIR)\<close>: the match starts at the first index
  from which the directory name can be reached without crossing a line terminator, and
  ends with the last occurrence of the name on that line.
\<close>

definition lastOccurrenceInLine :: "string \<Rightarrow> string \<Rightarrow> nat option" where
  "lastOccurrenceInLine needle s =
     (let line = take (dotRun s) s;
          ks = filter (\<lambda>k. startsWith (drop k line) needle) (rev [0 ..< Suc (length line)])
      in case ks of [] \<Rightarrow> None | k # _ \<Rightarrow> Some k)"

fun replaceShadersRegex :: "string \<Rightarrow> string" where
  "replaceShadersRegex [] = []"
| "replaceShadersRegex (c # cs) =
     (case lastOccurrenceInLine SHADERS_DIR (c # cs) of
        Some k \<Rightarrow> SHADERS_DIR @ drop (k + length SHADERS_DIR) (c # cs)
      | None \<Rightarrow> c # replaceShadersRegex cs)"

definition installIniMod ::
  "(string \<Rightarrow> string option) \<Rightarrow> string list \<Rightarrow> string
     \<Rightarrow> VortexInstruction list outcome \<times> effect list" where
  "installIniMod readFileSync files destinationPath =
     (let allIniModFiles = filter (\<lambda>file. extname file = INI_MOD_EXT) files in
      case testForReshadeFile readFileSync allIniModFiles destinationPath of
        (Inl e, l0) \<Rightarrow> (Throw e, l0)
      | (Inr reshade, l0) \<Rightarrow>
          (let iniFileInstructions =
                 map (\<lambda>file.
                        (let fileName = basename file;
                             dest = (if reshade then join [RESHADE_MOD_PATH, basename file]
                                     else join [INI_MOD_PATH, fileName])
                         in Copy file dest))
                   allIniModFiles;
               shaderFiles =
                 filter (\<lambda>file. str_includes file SHADERS_DIR \<and> \<not> endsWith file sep) files;
               installShaders = (reshade \<and> length shaderFiles \<noteq> 0);
               shaderInstructions =
                 (if installShaders
                  then map (\<lambda>file.
                              (let fileName = replaceShadersRegex file;
                                   dest = join [RESHADE_MOD_PATH, fileName]
                               in Copy file dest))
                         shaderFiles
                  else []);
               instructions = [] @ iniFileInstructions @ shaderInstructions
           in (Resolve instructions,
               l0 @ [Log Info ''Installing ini files: ''] @
               (if installShaders then [Log Info ''Installing shader files: ''] else []) @
               [Log Debug ''Installing ini files with instructions: ''])))"


section \<open>The key tree\<close>

text \<open>
  \<open>KeyTree\<close> of the package \<open>key-tree\<close>: a tree of nodes, each with a key, the values added
  under it and its children in the order they were created.  \<open>add\<close> splits the key at the
  separator and walks down, creating the nodes that are missing; \<open>get\<close> gives the values
  of one node, \<open>getSub\<close> those of a node and of everything below it.
\<close>

datatype ktnode = KTNode (nkey: string) (nvalues: "string list") (nchildren: "ktnode list")

definition newKeyTree :: ktnode where
  "newKeyTree = KTNode [] [] []"

definition getChild :: "ktnode \<Rightarrow> string \<Rightarrow> ktnode option" where
  "getChild n k = find (\<lambda>c. nkey c = k) (nchildren n)"

fun addKeys :: "string list \<Rightarrow> string \<Rightarrow> ktnode \<Rightarrow> ktnode" where
  "addKeys [] v (KTNode k vs cs) = KTNode k (vs @ [v]) cs"
| "addKeys (s # ss) v (KTNode k vs cs) =
     (if list_ex (\<lambda>c. nkey c = s) cs
      then KTNode k vs (map (\<lambda>c. if nkey c = s then addKeys ss v c else c) cs)
      else KTNode k vs (cs @ [addKeys ss v (KTNode s [] [])]))"

definition KeyTree_add :: "string \<Rightarrow> string \<Rightarrow> ktnode \<Rightarrow> ktnode" where
  "KeyTree_add k v t = addKeys (split_sep k) v t"

fun getNodeAt :: "string list \<Rightarrow> ktnode \<Rightarrow> ktnode option" where
  "getNodeAt [] n = Some n"
| "getNodeAt (s # ss) n = (case getChild n s of None \<Rightarrow> None | Some c \<Rightarrow> getNodeAt ss c)"

definition KeyTree_getNode :: "string \<Rightarrow> ktnode \<Rightarrow> ktnode option" where
  "KeyTree_getNode k t = getNodeAt (split_sep k) t"

definition KeyTree_get :: "string \<Rightarrow> ktnode \<Rightarrow> string list" where
  "KeyTree_get k t = (case KeyTree_getNode k t of None \<Rightarrow> [] | Some n \<Rightarrow> nvalues n)"

fun subValues :: "ktnode \<Rightarrow> string list" where
  "subValues (KTNode k vs cs) = vs @ concat (map subValues cs)"

definition KeyTree_getSub :: "string \<Rightarrow> ktnode \<Rightarrow> string list" where
  "KeyTree_getSub k t = (case KeyTree_getNode k t of None \<Rightarrow> [] | Some n \<Rightarrow> subValues n)"

text \<open>\<open>files.forEach((file) => fileTree.add(keyOf(file), file))\<close> on a new tree.\<close>

definition keyTreeOf :: "(string \<Rightarrow> string) \<Rightarrow> string list \<Rightarrow> ktnode" where
  "keyTreeOf keyOf files = foldl (\<lambda>t file. KeyTree_add (keyOf file) file t) newKeyTree files"

text \<open>
  \<open>allFilesInFolder\<close>: the node's \<open>fullPath\<close> is the list of keys that led to it, and the
  grouped \<open>getSub\<close> is flattened again.
\<close>

definition allFilesInFolder :: "string \<Rightarrow> string list \<Rightarrow> string list" where
  "allFilesInFolder folder files =
     (let fileTree = keyTreeOf (\<lambda>file. file) files in
      case KeyTree_getNode folder fileTree of
        None \<Rightarrow> []
      | Some moddir \<Rightarrow>
          (let moddirPath = join (split_sep folder) in KeyTree_getSub moddirPath fileTree))"

definition allCanonicalCetFiles :: "string list \<Rightarrow> string list" where
  "allCanonicalCetFiles files = allFilesInFolder CET_MOD_CANONICAL_PATH_PREFIX files"

definition allCanonicalArchiveOnlyFiles :: "string list \<Rightarrow> string list" where
  "allCanonicalArchiveOnlyFiles files = allFilesInFolder ARCHIVE_ONLY_CANONICAL_PREFIX files"


section \<open>The CET detectors\<close>

definition matchRedscript :: "string \<Rightarrow> bool" where
  "matchRedscript file \<longleftrightarrow> extname file = REDS_MOD_CANONICAL_EXTENSION"

definition allRedscriptFiles :: "string list \<Rightarrow> string list" where
  "allRedscriptFiles files = filter matchRedscript files"

definition hasCetFilesInANamedModDir :: "ktnode \<Rightarrow> bool" where
  "hasCetFilesInANamedModDir moddir =
     list_ex (\<lambda>child. getChild child CET_MOD_CANONICAL_INIT_FILE \<noteq> None) (nchildren moddir)"

definition testForRedCetMixedMod ::
  "string list \<Rightarrow> string \<Rightarrow> VortexTestResult outcome \<times> effect list" where
  "testForRedCetMixedMod files gameId =
     (let l0 = [Log Debug ''Starting CET matcher, input files: ''];
          fileTree = keyTreeOf (\<lambda>file. file) files
      in case KeyTree_getNode CET_MOD_CANONICAL_PATH_PREFIX fileTree of
           None \<Rightarrow> (Resolve unsupportedResult, l0)
         | Some moddir \<Rightarrow>
             if length (nchildren moddir) = 0 then (Resolve unsupportedResult, l0)
             else
               (let has = hasCetFilesInANamedModDir moddir;
                    redscriptFiles = allRedscriptFiles files
                in if has \<and> length redscriptFiles = 0
                   then (Resolve unsupportedResult, l0 @ [Log Debug ''Have CET, but no redscript''])
                   else (Resolve \<lparr>supported = has, requiredFiles = []\<rparr>, l0)))"

definition testForCetMod ::
  "string list \<Rightarrow> string \<Rightarrow> VortexTestResult outcome \<times> effect list" where
  "testForCetMod files gameId =
     (let l0 = [Log Debug ''Starting CET matcher, input files: ''];
          fileTree = keyTreeOf (\<lambda>file. file) files
      in case KeyTree_getNode CET_MOD_CANONICAL_PATH_PREFIX fileTree of
           None \<Rightarrow> (Resolve unsupportedResult, l0)
         | Some moddir \<Rightarrow>
             if length (nchildren moddir) = 0 then (Resolve unsupportedResult, l0)
             else
               (let has = hasCetFilesInANamedModDir moddir
                in (Resolve \<lparr>supported = has, requiredFiles = []\<rparr>,
                    l0 @ (if has then [Log Info ''Matching CET installer: true''] else []))))"


section \<open>The Redscript installer of \<open>installers.ts\<close>\<close>

definition redsNoneMessage :: string where
  "redsNoneMessage = ''No Redscript found, should never get here.''"

definition redsConflictMessage :: string where
  "redsConflictMessage = ''Conflicting Redscript locations, bailing out!''"

text \<open>The three places Redscript files are looked for, in the order the source lists
  them: canonical, \<open>r6\scripts\<close> itself, the top level.\<close>

definition redsFileTree :: "string list \<Rightarrow> ktnode" where
  "redsFileTree files = keyTreeOf dirname files"

definition topLevelReds :: "string list \<Rightarrow> string list" where
  "topLevelReds files = filter matchRedscript (KeyTree_get ''.'' (redsFileTree files))"

definition redsDirReds :: "string list \<Rightarrow> string list" where
  "redsDirReds files =
     filter matchRedscript (KeyTree_get REDS_MOD_CANONICAL_PATH_PREFIX (redsFileTree files))"

definition canonRedsModFiles :: "string list \<Rightarrow> string list" where
  "canonRedsModFiles files =
     (case KeyTree_getNode REDS_MOD_CANONICAL_PATH_PREFIX (redsFileTree files) of
        None \<Rightarrow> []
      | Some base \<Rightarrow>
          (case nchildren base of
             [child] \<Rightarrow>
               KeyTree_getSub (join [REDS_MOD_CANONICAL_PATH_PREFIX, nkey child])
                 (redsFileTree files)
           | _ \<Rightarrow> []))"

definition installable :: "string list \<Rightarrow> string list list" where
  "installable files =
     filter (\<lambda>location. 0 < length location)
       [canonRedsModFiles files, redsDirReds files, topLevelReds files]"

definition installRedscriptMod ::
  "string list \<Rightarrow> string \<Rightarrow> VortexInstruction list outcome \<times> effect list" where
  "installRedscriptMod files destinationPath =
     (let l0 = [Log Info ''Using Redscript installer''] in
      if length (installable files) = 0
      then (Reject redsNoneMessage,
            l0 @ [Log Error (''Redscript Mod installer: '' @ redsNoneMessage)])
      else if 1 < length (installable files)
      then (Reject redsConflictMessage,
            l0 @ [Log Error (''Redscript Mod installer: '' @ redsConflictMessage),
                  ShowDialog ''error'' redsConflictMessage])
      else
        (let modName = makeModName destinationPath;
             archiveOnlyFiles = allCanonicalArchiveOnlyFiles files;
             allSourcesAndDestinations =
               [map toSamePath (canonRedsModFiles files),
                map (toDirInPath REDS_MOD_CANONICAL_PATH_PREFIX modName) (redsDirReds files),
                map (toDirInPath REDS_MOD_CANONICAL_PATH_PREFIX modName) (topLevelReds files),
                map toSamePath archiveOnlyFiles];
             instructions = concat (map instructionsForSourceToDestPairs allSourcesAndDestinations)
         in (Resolve instructions, l0)))"

definition reportsSupported :: "VortexTestResult outcome \<times> effect list \<Rightarrow> bool" where
  "reportsSupported r = (case fst r of Resolve t \<Rightarrow> supported t | _ \<Rightarrow> False)"


section \<open>The file tree\<close>

text \<open>
  Modelled from the spec: the module \<open>./filetree\<close> is not among the sources.  The spec
  describes a read-only view over the set of relative paths, with a node for every
  directory that is an ancestor of a path.  The tree is kept as the list of its paths.
\<close>

datatype FileTree = FileTree (sourcePaths: "string list")

text \<open>Modelled from the spec: \<open>fileTreeFromPaths\<close> of \<open>./filetree\<close>, "construction is a
  pure function of the input path list".\<close>

definition fileTreeFromPaths :: "string list \<Rightarrow> FileTree" where
  "fileTreeFromPaths ps = FileTree ps"

text \<open>Modelled from the spec: \<open>FILETREE_ROOT\<close> of \<open>./filetree\<close>, "empty string denotes
  tree root".\<close>

definition FILETREE_ROOT :: string where
  "FILETREE_ROOT = []"

text \<open>Modelled from the spec: \<open>Glob.Any\<close> of \<open>./filetree\<close>, the filter that every file
  passes.\<close>

definition Glob_Any :: "string \<Rightarrow> bool" where
  "Glob_Any f = True"

text \<open>Modelled from the spec: the segments of a path of \<open>./filetree\<close>, which are the
  non-empty pieces between separators.\<close>

definition pathSegments :: "string \<Rightarrow> string list" where
  "pathSegments p = filter (\<lambda>s. s \<noteq> []) (splitBy isPathSeparator p)"

text \<open>Modelled from the spec: the directory markers of \<open>./filetree\<close>, "paths ending in
  separator".\<close>

definition isDirMarker :: "string \<Rightarrow> bool" where
  "isDirMarker p = endsWith p sep"

text \<open>Modelled from the spec: the directory an entry of \<open>./filetree\<close> stands in; a marker
  names its own directory, a file the directory that holds it.\<close>

definition dirOfEntry :: "string \<Rightarrow> string list" where
  "dirOfEntry p = (if isDirMarker p then pathSegments p else butlast (pathSegments p))"

text \<open>Modelled from the spec: the files of \<open>./filetree\<close>, the entries that are not
  directory markers.\<close>

definition isFileEntry :: "string \<Rightarrow> bool" where
  "isFileEntry p \<longleftrightarrow> \<not> isDirMarker p \<and> pathSegments p \<noteq> []"

definition isPrefixOf :: "'a list \<Rightarrow> 'a list \<Rightarrow> bool" where
  "isPrefixOf xs ys \<longleftrightarrow> take (length xs) ys = xs"

text \<open>Modelled from the spec: \<open>dirInTree\<close> of \<open>./filetree\<close>, "directory node exists (even
  if empty of files)"; the root always exists.\<close>

definition dirInTree :: "string \<Rightarrow> FileTree \<Rightarrow> bool" where
  "dirInTree dir tree \<longleftrightarrow>
     pathSegments dir = []
     \<or> list_ex (\<lambda>p. isPrefixOf (pathSegments dir) (dirOfEntry p)) (sourcePaths tree)"

text \<open>Modelled from the spec: \<open>filesIn\<close> of \<open>./filetree\<close>, "files directly in \<open>dir\<close>
  matching the predicate".\<close>

definition filesIn :: "string \<Rightarrow> (string \<Rightarrow> bool) \<Rightarrow> FileTree \<Rightarrow> string list" where
  "filesIn dir pred tree =
     filter (\<lambda>p. isFileEntry p \<and> dirOfEntry p = pathSegments dir \<and> pred p) (sourcePaths tree)"

text \<open>Modelled from the spec: \<open>filesUnder\<close> of \<open>./filetree\<close>, "transitively; excludes
  directory markers".\<close>

definition filesUnder :: "string \<Rightarrow> (string \<Rightarrow> bool) \<Rightarrow> FileTree \<Rightarrow> string list" where
  "filesUnder dir pred tree =
     filter (\<lambda>p. isFileEntry p \<and> isPrefixOf (pathSegments dir) (dirOfEntry p) \<and> pred p)
       (sourcePaths tree)"

text \<open>Modelled from the spec: the directories of \<open>./filetree\<close> below \<open>dir\<close>, as segment
  lists: every ancestor directory of an entry that lies deeper than \<open>dir\<close>.\<close>

definition dirsBelow :: "string \<Rightarrow> FileTree \<Rightarrow> string list list" where
  "dirsBelow dir tree =
     remdups
       (concat
          (map (\<lambda>p. map (\<lambda>n. take n (dirOfEntry p))
                       [Suc (length (pathSegments dir)) ..< Suc (length (dirOfEntry p))])
             (filter (\<lambda>p. isPrefixOf (pathSegments dir) (dirOfEntry p)) (sourcePaths tree))))"

text \<open>Modelled from the spec: \<open>subdirsIn\<close> of \<open>./filetree\<close>, "one-level children".\<close>

definition subdirsIn :: "string \<Rightarrow> FileTree \<Rightarrow> string list" where
  "subdirsIn dir tree =
     map (joinWith sep)
       (filter (\<lambda>d. length d = Suc (length (pathSegments dir))) (dirsBelow dir tree))"

text \<open>Modelled from the spec: \<open>subdirPaths\<close> of \<open>./filetree\<close>, the name \<open>installers.ts\<close>
  uses for the one-level children.\<close>

definition subdirPaths :: "string \<Rightarrow> FileTree \<Rightarrow> string list" where
  "subdirPaths dir tree = subdirsIn dir tree"

text \<open>Modelled from the spec: \<open>subdirNamesIn\<close> of \<open>./filetree\<close>, the names of the
  one-level children.\<close>

definition subdirNamesIn :: "string \<Rightarrow> FileTree \<Rightarrow> string list" where
  "subdirNamesIn dir tree =
     map last (filter (\<lambda>d. length d = Suc (length (pathSegments dir))) (dirsBelow dir tree))"

text \<open>Modelled from the spec: \<open>findDirectSubdirsWithSome\<close> of \<open>./filetree\<close>, "immediate
  children of \<open>dir\<close> that themselves contain at least one file (directly) matching".\<close>

definition findDirectSubdirsWithSome :: "string \<Rightarrow> (string \<Rightarrow> bool) \<Rightarrow> FileTree \<Rightarrow> string list" where
  "findDirectSubdirsWithSome dir pred tree =
     filter (\<lambda>d. filesIn d pred tree \<noteq> []) (subdirsIn dir tree)"

text \<open>Modelled from the spec: \<open>findAllSubdirsWithSome\<close> of \<open>./filetree\<close>, "any descendant
  directory containing a direct match".\<close>

definition findAllSubdirsWithSome :: "string \<Rightarrow> (string \<Rightarrow> bool) \<Rightarrow> FileTree \<Rightarrow> string list" where
  "findAllSubdirsWithSome dir pred tree =
     filter (\<lambda>d. filesIn d pred tree \<noteq> []) (map (joinWith sep) (dirsBelow dir tree))"

text \<open>Modelled from the spec: \<open>dirWithSomeIn\<close> of \<open>./filetree\<close>, the existence form of
  \<open>filesIn\<close>.\<close>

definition dirWithSomeIn :: "string \<Rightarrow> (string \<Rightarrow> bool) \<Rightarrow> FileTree \<Rightarrow> bool" where
  "dirWithSomeIn dir pred tree \<longleftrightarrow> filesIn dir pred tree \<noteq> []"

text \<open>Modelled from the spec: \<open>dirWithSomeUnder\<close> of \<open>./filetree\<close>, the existence form of
  \<open>filesUnder\<close>.\<close>

definition dirWithSomeUnder :: "string \<Rightarrow> (string \<Rightarrow> bool) \<Rightarrow> FileTree \<Rightarrow> bool" where
  "dirWithSomeUnder dir pred tree \<longleftrightarrow> filesUnder dir pred tree \<noteq> []"


section \<open>The archive installer of \<open>installers.ts\<close>\<close>

datatype ArchiveLayouts = Canon | Heritage | Other | Invalid

record 'k Instructions =
  kind :: 'k
  instructions :: "VortexInstruction list"

definition matchArchive :: "string \<Rightarrow> bool" where
  "matchArchive file \<longleftrightarrow> extname file = ARCHIVE_ONLY_CANONICAL_EXT"

text \<open>
  \<open>s.replace(pattern, replacement)\<close> for a string pattern: the first occurrence is
  replaced.  In the replacement \<open>$$\<close> stands for a dollar sign, \<open>$&\<close> for the match,
  \<open>$`\<close> for the text before it and \<open>$'\<close> for the text after it.
\<close>

fun getSubstitution :: "string \<Rightarrow> string \<Rightarrow> string \<Rightarrow> string \<Rightarrow> string" where
  "getSubstitution matched pre post (c # d # rest) =
     (if c = CHR ''$'' \<and> d = CHR ''$'' then CHR ''$'' # getSubstitution matched pre post rest
      else if c = CHR ''$'' \<and> d = CHR ''&'' then matched @ getSubstitution matched pre post rest
      else if c = CHR ''$'' \<and> d = CHR 0x60 then pre @ getSubstitution matched pre post rest
      else if c = CHR ''$'' \<and> d = CHR 0x27 then post @ getSubstitution matched pre post rest
      else c # getSubstitution matched pre post (d # rest))"
| "getSubstitution matched pre post rest = rest"

fun replaceAt :: "string \<Rightarrow> string \<Rightarrow> string \<Rightarrow> string \<Rightarrow> string" where
  "replaceAt pat rep pre [] = (if pat = [] then getSubstitution pat pre [] rep else [])"
| "replaceAt pat rep pre (c # cs) =
     (if startsWith (c # cs) pat
      then getSubstitution pat pre (drop (length pat) (c # cs)) rep
             @ drop (length pat) (c # cs)
      else c # replaceAt pat rep (pre @ [c]) cs)"

definition replaceFirst :: "string \<Rightarrow> string \<Rightarrow> string \<Rightarrow> string" where
  "replaceFirst pat rep s = replaceAt pat rep [] s"

definition archiveCanonInstructions :: "FileTree \<Rightarrow> ArchiveLayouts Instructions" where
  "archiveCanonInstructions fileTree =
     (let hasCanonFiles = dirWithSomeUnder ARCHIVE_ONLY_CANONICAL_PREFIX matchArchive fileTree in
      if \<not> hasCanonFiles then \<lparr>kind = Canon, instructions = []\<rparr>
      else
        (let allCanonFiles = filesUnder ARCHIVE_ONLY_CANONICAL_PREFIX Glob_Any fileTree in
         \<lparr>kind = Canon, instructions = instructionsForSameSourceAndDestPaths allCanonFiles\<rparr>))"

definition archiveOldToNewCanonInstructions :: "FileTree \<Rightarrow> ArchiveLayouts Instructions" where
  "archiveOldToNewCanonInstructions fileTree =
     (let hasOldCanonFiles =
            dirWithSomeUnder ARCHIVE_ONLY_TRADITIONAL_WRONG_PREFIX matchArchive fileTree in
      if \<not> hasOldCanonFiles then \<lparr>kind = Heritage, instructions = []\<rparr>
      else
        (let oldCanonFiles = filesUnder ARCHIVE_ONLY_TRADITIONAL_WRONG_PREFIX Glob_Any fileTree;
             oldToNewMap =
               map (\<lambda>f. (f, replaceFirst (normalize_path ARCHIVE_ONLY_TRADITIONAL_WRONG_PREFIX)
                               (normalize_path ARCHIVE_ONLY_CANONICAL_PREFIX) f))
                 oldCanonFiles
         in \<lparr>kind = Heritage, instructions = instructionsForSourceToDestPairs oldToNewMap\<rparr>))"

definition archiveOtherDirsToCanonInstructions :: "FileTree \<Rightarrow> ArchiveLayouts Instructions" where
  "archiveOtherDirsToCanonInstructions fileTree =
     (let allDirs = findAllSubdirsWithSome FILETREE_ROOT matchArchive fileTree;
          allFiles = concat (map (\<lambda>dir. filesUnder dir Glob_Any fileTree) allDirs);
          allToPrefixedMap = map (\<lambda>f. (f, join [ARCHIVE_ONLY_CANONICAL_PREFIX, f])) allFiles
      in \<lparr>kind = Other, instructions = instructionsForSourceToDestPairs allToPrefixedMap\<rparr>)"

text \<open>\<open>possibleLayouts.reduce(...)\<close>, starting from the invalid layout without
  instructions.\<close>

definition useFirstMatchingLayoutForInstructions ::
  "('t \<Rightarrow> ArchiveLayouts Instructions) list \<Rightarrow> 't \<Rightarrow> ArchiveLayouts Instructions" where
  "useFirstMatchingLayoutForInstructions possibleLayouts fileTree =
     foldl (\<lambda>found layout. if 0 < length (instructions found) then found else layout fileTree)
       \<lparr>kind = Invalid, instructions = []\<rparr> possibleLayouts"

definition warnUserIfModMightNeedManualReview :: "ArchiveLayouts Instructions \<Rightarrow> effect list" where
  "warnUserIfModMightNeedManualReview chosenInstructions =
     (let destinationPaths = map destination (instructions chosenInstructions);
          newTree = fileTreeFromPaths destinationPaths;
          warnAboutSubdirs = (0 < length (subdirPaths ARCHIVE_ONLY_CANONICAL_PREFIX newTree));
          hasMultipleTopLevelFiles =
            (1 < length (filesIn ARCHIVE_ONLY_CANONICAL_PREFIX matchArchive newTree));
          multipleTopLevelsMightBeIntended = (kind chosenInstructions \<noteq> Other);
          warnAboutToplevel = (\<not> multipleTopLevelsMightBeIntended \<and> hasMultipleTopLevelFiles)
      in if warnAboutSubdirs \<or> warnAboutToplevel
         then [ShowArchiveInstallWarning warnAboutSubdirs warnAboutToplevel destinationPaths]
         else [])"

definition archiveNoInstructionsMessage :: string where
  "archiveNoInstructionsMessage = ''ArchiveOnly installer failed to generate any instructions!''"

definition archiveConflictMessage :: string where
  "archiveConflictMessage = ''Conflicting layouts for Archive mod!''"

definition possibleLayoutsToTryInOrder :: "(FileTree \<Rightarrow> ArchiveLayouts Instructions) list" where
  "possibleLayoutsToTryInOrder =
     [archiveCanonInstructions, archiveOldToNewCanonInstructions,
      archiveOtherDirsToCanonInstructions]"

definition chosenArchiveInstructions :: "string list \<Rightarrow> ArchiveLayouts Instructions" where
  "chosenArchiveInstructions files =
     useFirstMatchingLayoutForInstructions possibleLayoutsToTryInOrder (fileTreeFromPaths files)"

definition installArchiveOnlyMod ::
  "string list \<Rightarrow> string \<Rightarrow> VortexInstruction list outcome \<times> effect list" where
  "installArchiveOnlyMod files destinationPath =
     (let l0 = [Log Info ''Using ArchiveOnly installer''];
          fileTree = fileTreeFromPaths files;
          fileCount = length (filesUnder FILETREE_ROOT Glob_Any fileTree);
          chosenInstructions = chosenArchiveInstructions files
      in if length (instructions chosenInstructions) < 1
         then (Reject archiveNoInstructionsMessage, l0 @ [Log Error archiveNoInstructionsMessage])
         else
           (let haveFilesOutsideSelectedInstructions =
                  (length (instructions chosenInstructions) \<noteq> fileCount)
            in if haveFilesOutsideSelectedInstructions
               then (Reject archiveConflictMessage,
                     l0 @ [ShowArchiveStructureErrorDialog archiveConflictMessage files,
                           Log Error archiveConflictMessage])
               else (Resolve (instructions chosenInstructions),
                     l0 @ warnUserIfModMightNeedManualReview chosenInstructions @
                     [Log Info ''ArchiveOnly installer installing files.'',
                      Log Debug ''ArchiveOnly instructions: ''])))"

definition testForArchiveOnlyMod ::
  "string list \<Rightarrow> string \<Rightarrow> VortexTestResult outcome \<times> effect list" where
  "testForArchiveOnlyMod files gameId =
     (let correctGame = (gameId = GAME_ID);
          l0 = [Log Info ''Checking bad structure of mod for a game: '']
      in if \<not> correctGame then (Resolve unsupportedResult, l0)
         else
           (let filtered = filter (\<lambda>file. toLowerCase (extname file) = MOD_FILE_EXT) files in
            if length filtered = 0
            then (Resolve unsupportedResult, l0 @ [Log Info ''No archives.''])
            else if length filtered < length files then
              (let unfiltered = filter (\<lambda>f. f \<notin> set filtered) files;
                   importantBaseDirs = [''bin'', ''r6'', ''red4ext''];
                   hasNonArchive =
                     list_ex (\<lambda>f. hd (split_sep (dirname f)) \<in> set importantBaseDirs) unfiltered
               in if hasNonArchive
                  then (Resolve unsupportedResult,
                        l0 @ [Log Info
                          ''Other mod folder exist... probably an archive as part of those.''])
                  else (Resolve supportedResult,
                        l0 @ [Log Info
                          ''Only archive files, so installing them should be easy peasy.'']))
            else (Resolve supportedResult,
                  l0 @ [Log Info
                    ''Only archive files, so installing them should be easy peasy.''])))"


section \<open>The installer pipeline\<close>

datatype InstallerType =
    CoreCET | CoreRedscript | CoreRed4ext | CoreCSVMerge | CoreWolvenKit
  | RedCetMix | CET | Redscript | Red4Ext | TweakDB | AXL | INI | Config | Reshade | LUT
  | ArchiveOnly | Json | FallbackForOther | NotSupported

text \<open>An installer of the pipeline, by its type and id (its two functions are the
  definitions above).\<close>

record Installer =
  itype :: InstallerType
  iid :: string

record InstallerWithPriority = Installer +
  priority :: nat

definition PRIORITY_STARTING_NUMBER :: nat where
  "PRIORITY_STARTING_NUMBER = 30"

definition installers :: "Installer list" where
  "installers =
     [\<lparr>itype = CoreCET, iid = ''cp2077-core-cet-mod''\<rparr>,
      \<lparr>itype = CoreRedscript, iid = ''cp2077-core-redscript-mod''\<rparr>,
      \<lparr>itype = CoreRed4ext, iid = ''cp2077-core-red4ext-mod''\<rparr>,
      \<lparr>itype = CoreCSVMerge, iid = ''cp2077-core-csvmerge-mod''\<rparr>,
      \<lparr>itype = CoreWolvenKit, iid = ''cp2077-core-wolvenkit-mod''\<rparr>,
      \<lparr>itype = RedCetMix, iid = ''cp2077-red-cet-mixture-mod''\<rparr>,
      \<lparr>itype = CET, iid = ''cp2077-cet-mod''\<rparr>,
      \<lparr>itype = Redscript, iid = ''cp2077-redscript-mod''\<rparr>,
      \<lparr>itype = INI, iid = ''cp2077-ini-mod''\<rparr>,
      \<lparr>itype = ArchiveOnly, iid = ''cp2077-basic-archive-mod''\<rparr>,
      \<lparr>itype = Json, iid = ''cp2077-json-mod''\<rparr>,
      \<lparr>itype = FallbackForOther, iid = ''cp2077-fallback-for-others-mod''\<rparr>]"

definition addPriorityFrom ::
  "nat \<Rightarrow> InstallerWithPriority list \<Rightarrow> Installer \<times> nat \<Rightarrow> InstallerWithPriority list" where
  "addPriorityFrom start prioritized installerAndIndex =
     (case installerAndIndex of
        (installer, index) \<Rightarrow>
          prioritized @
          [\<lparr>itype = itype installer, iid = iid installer, priority = start + index\<rparr>])"

text \<open>\<open>installers.reduce(addPriorityFrom(PRIORITY_STARTING_NUMBER), [])\<close>; \<open>reduce\<close> hands
  the index of each element to the callback.\<close>

definition installerPipeline :: "InstallerWithPriority list" where
  "installerPipeline =
     foldl (addPriorityFrom PRIORITY_STARTING_NUMBER) []
       (zip installers [0 ..< length installers])"

definition priorityOf :: "InstallerType \<Rightarrow> nat option" where
  "priorityOf t = map_option priority (find (\<lambda>i. itype i = t) installerPipeline)"


section \<open>The Redscript installer of \<open>installer.redscript.ts\<close>\<close>

definition testForRedscriptMod ::
  "string list \<Rightarrow> string \<Rightarrow> VortexTestResult outcome \<times> effect list" where
  "testForRedscriptMod files gameId =
     (let l0 = [Log Debug ''Starting Redscript matcher, input files: '',
                Log Debug ''redscriptFiles: ''];
          redscriptFiles = allRedscriptFiles files
      in if length redscriptFiles = 0
         then (Resolve unsupportedResult, l0 @ [Log Debug ''No Redscripts''])
         else (Resolve supportedResult, l0 @ [Log Info ''Matched to Redscript'']))"

text \<open>Modelled from the spec: \<open>trueish\<close> of \<open>./installers.utils\<close>, which is not among the
  sources; it keeps the layouts that are present.\<close>

definition trueish :: "bool \<Rightarrow> bool" where
  "trueish b = b"

definition hasToplevelReds :: "FileTree \<Rightarrow> bool" where
  "hasToplevelReds fileTree = dirWithSomeIn FILETREE_ROOT matchRedscript fileTree"

definition hasBasedirReds :: "FileTree \<Rightarrow> bool" where
  "hasBasedirReds fileTree =
     dirWithSomeIn REDS_MOD_CANONICAL_PATH_PREFIX matchRedscript fileTree"

definition canonSubdirs :: "FileTree \<Rightarrow> string list" where
  "canonSubdirs fileTree =
     findDirectSubdirsWithSome REDS_MOD_CANONICAL_PATH_PREFIX matchRedscript fileTree"

definition hasCanonReds :: "FileTree \<Rightarrow> bool" where
  "hasCanonReds fileTree \<longleftrightarrow> 0 < length (canonSubdirs fileTree)"

definition installableLayouts :: "FileTree \<Rightarrow> bool list" where
  "installableLayouts fileTree =
     filter trueish [hasToplevelReds fileTree, hasBasedirReds fileTree, hasCanonReds fileTree]"

text \<open>
  \<open>installRedscriptMod\<close> of \<open>installer.redscript.ts\<close>.  Three functions it calls are in
  modules that are not among the sources and are parameters here:
  \<open>promptToFallbackOrFailOnUnresolvableLayout\<close> (of \<open>./installer.fallback\<close>, called with
  the Redscript installer type), \<open>extraCanonArchiveInstructions\<close> (of
  \<open>./installer.archive\<close>) and \<open>makeSyntheticName\<close> (of \<open>./installers.shared\<close>).
\<close>

definition installRedscriptMod_ft ::
  "(FileTree \<Rightarrow> VortexInstruction list outcome \<times> effect list)
     \<Rightarrow> (FileTree \<Rightarrow> VortexInstruction list) \<Rightarrow> (string \<Rightarrow> string)
     \<Rightarrow> string list \<Rightarrow> FileTree \<Rightarrow> string
     \<Rightarrow> VortexInstruction list outcome \<times> effect list" where
  "installRedscriptMod_ft promptToFallbackOrFailOnUnresolvableLayout
     extraCanonArchiveInstructions makeSyntheticName files fileTree destinationPath =
     (let toplevelReds = (if hasToplevelReds fileTree
                          then filesUnder FILETREE_ROOT Glob_Any fileTree else []);
          basedirReds = (if hasBasedirReds fileTree
                         then filesUnder REDS_MOD_CANONICAL_PATH_PREFIX Glob_Any fileTree
                         else []);
          canonReds = (if hasCanonReds fileTree
                       then concat (map (\<lambda>dir. filesUnder dir Glob_Any fileTree)
                                      (canonSubdirs fileTree))
                       else [])
      in if length (installableLayouts fileTree) \<noteq> 1
         then promptToFallbackOrFailOnUnresolvableLayout fileTree
         else
           (let modName = makeSyntheticName destinationPath;
                extraArchiveInstructions = extraCanonArchiveInstructions fileTree;
                allSourcesAndDestinations =
                  [map toSamePath canonReds,
                   map (toDirInPath REDS_MOD_CANONICAL_PATH_PREFIX modName) basedirReds,
                   map (toDirInPath REDS_MOD_CANONICAL_PATH_PREFIX modName) toplevelReds];
                redsInstructions =
                  concat (map instructionsForSourceToDestPairs allSourcesAndDestinations);
                instructions = redsInstructions @ extraArchiveInstructions
            in (Resolve instructions, [])))"


section \<open>Archives converted to REDmod\<close>

datatype Feature = Enabled | Disabled

record Features =
  REDmodAutoconvertArchives :: Feature

text \<open>\<open>ModInfo\<close>: the name and \<open>version.v\<close> are the fields the conversion reads.\<close>

record ModInfo =
  name :: string
  version_v :: string

text \<open>The \<open>REDmodInfo\<close> the conversion builds: \<open>{name, version}\<close>.\<close>

datatype REDmodInfo = REDmodInfo (infoName: string) (infoVersion: string)

datatype LayoutKind =
    ArchiveLayout_Canon | ArchiveLayout_Heritage | ArchiveLayout_Other | ArchiveLayout_XL
  | REDmodTransformedLayout_Archive

text \<open>Modelled from the spec: \<open>REDMOD_BASEDIR\<close> of \<open>./installers.layouts\<close>, which is not
  among the sources; "the REDmod base (\<open>mods\\<close>)".\<close>

definition REDMOD_BASEDIR :: string where
  "REDMOD_BASEDIR = ''mods''"

text \<open>Modelled from the spec: \<open>REDMOD_INFO_FILENAME\<close> of \<open>./installers.layouts\<close>, the
  \<open>info.json\<close> of a module.\<close>

definition REDMOD_INFO_FILENAME :: string where
  "REDMOD_INFO_FILENAME = ''info.json''"

text \<open>Modelled from the spec: \<open>REDMOD_ARCHIVES_DIRNAME\<close> of \<open>./installers.layouts\<close>,
  "files under \<open>archives\\<close>".\<close>

definition REDMOD_ARCHIVES_DIRNAME :: string where
  "REDMOD_ARCHIVES_DIRNAME = ''archives''"

text \<open>Modelled from the spec: \<open>REDMOD_ARCHIVES_VALID_EXTENSIONS\<close> of
  \<open>./installers.layouts\<close>, "matching \<open>{.archive, .xl}\<close>".\<close>

definition REDMOD_ARCHIVES_VALID_EXTENSIONS :: "string list" where
  "REDMOD_ARCHIVES_VALID_EXTENSIONS = [''.archive'', ''.xl'']"

text \<open>Modelled from the spec: \<open>ARCHIVE_MOD_CANONICAL_PREFIX\<close> of \<open>./installers.layouts\<close>,
  the canonical destination prefix \<open>archive\pc\mod\\<close> of archives.\<close>

definition ARCHIVE_MOD_CANONICAL_PREFIX :: string where
  "ARCHIVE_MOD_CANONICAL_PREFIX = normalize_path ''archive/pc/mod/''"

text \<open>
  The helpers of \<open>./installers.shared\<close>, \<open>./installers.utils\<close> and \<open>./filetree\<close> that the
  conversion calls and that the spec does not describe: they are parameters.
\<close>

record Helpers =
  modInfoTaggedAsAutoconverted :: "ModInfo \<Rightarrow> ModInfo"
  jsonpp :: "REDmodInfo \<Rightarrow> string"
  moveFromTo :: "string \<Rightarrow> string \<Rightarrow> string \<Rightarrow> string \<times> string"
  pathIn :: "string list \<Rightarrow> string \<Rightarrow> bool"

record REDmodInfoAndPathDetes =
  redmodInfo :: REDmodInfo
  relativeSourceDir :: string
  relativeDestDir :: string
  fileTree :: FileTree

definition instructionsToMoveAllFromSourceToDestination ::
  "Helpers \<Rightarrow> string \<Rightarrow> string \<Rightarrow> string list \<Rightarrow> VortexInstruction list" where
  "instructionsToMoveAllFromSourceToDestination h sourceDirPrefix destinationDirPrefix files =
     instructionsForSourceToDestPairs
       (map (moveFromTo h sourceDirPrefix destinationDirPrefix) files)"

definition matchREDmodArchive :: "Helpers \<Rightarrow> string \<Rightarrow> bool" where
  "matchREDmodArchive h p = pathIn h REDMOD_ARCHIVES_VALID_EXTENSIONS (extname p)"

text \<open>\<open>archiveLayoutAndValidation\<close>: it warns and never fails (\<open>Inr\<close> is \<open>right\<close>).\<close>

definition archiveLayoutAndValidation ::
  "Helpers \<Rightarrow> REDmodInfoAndPathDetes \<Rightarrow> (string + VortexInstruction list) \<times> effect list" where
  "archiveLayoutAndValidation h detes =
     (let archiveDir = join [relativeSourceDir detes, REDMOD_ARCHIVES_DIRNAME];
          correctlyPlacedArchiveFiles =
            filesIn archiveDir (matchREDmodArchive h) (fileTree detes);
          allArchiveFilesInArchivePath =
            filesUnder archiveDir (matchREDmodArchive h) (fileTree detes);
          hasArchivesInSubdirs =
            (length allArchiveFilesInArchivePath \<noteq> length correctlyPlacedArchiveFiles);
          hasMultipleArchives = (1 < length correctlyPlacedArchiveFiles);
          instructions =
            instructionsToMoveAllFromSourceToDestination h (relativeSourceDir detes)
              (relativeDestDir detes) allArchiveFilesInArchivePath
      in (Inr instructions,
          if hasArchivesInSubdirs \<or> hasMultipleArchives
          then [Log Warn
                  ''Archive sublayout may require manual fixing, showing warning but continuing:'',
                ShowArchiveInstallWarningFor ''REDmod'' hasArchivesInSubdirs hasMultipleArchives
                  False allArchiveFilesInArchivePath]
          else []))"

text \<open>
  \<open>new Map(pairs)\<close>: the keys in the order they were first set, each with the value set
  last.
\<close>

definition mapKeys :: "(string \<times> string) list \<Rightarrow> string list" where
  "mapKeys pairs = rev (remdups (rev (map fst pairs)))"

definition mapGet :: "(string \<times> string) list \<Rightarrow> string \<Rightarrow> string option" where
  "mapGet pairs k = map_of (rev pairs) k"

text \<open>
  The step that puts the real source back: an instruction whose source is a key of the
  map with a non-empty value gets that value as its source (\<open>source && map.get(source)\<close>
  must both be truthy).
\<close>

definition mappedBackToRealSource ::
  "(string \<times> string) list \<Rightarrow> VortexInstruction \<Rightarrow> VortexInstruction" where
  "mappedBackToRealSource mapFromVirtualSourceToRealSource redmodInstruction =
     (case redmodInstruction of
        Copy src dst \<Rightarrow>
          (case mapGet mapFromVirtualSourceToRealSource src of
             Some real \<Rightarrow>
               if src \<noteq> [] \<and> real \<noteq> [] then Copy real dst else redmodInstruction
           | None \<Rightarrow> redmodInstruction)
      | _ \<Rightarrow> redmodInstruction)"

definition transformToREDmodArchiveInstructions ::
  "Helpers \<Rightarrow> Features \<Rightarrow> ModInfo \<Rightarrow> LayoutKind Instructions
     \<Rightarrow> (string + LayoutKind Instructions) \<times> effect list" where
  "transformToREDmodArchiveInstructions h features modInfo originalInstructions =
     (if REDmodAutoconvertArchives features \<noteq> Enabled
      then (Inr originalInstructions,
            [Log Error ''REDmod transform function called but feature is disabled''])
      else if kind originalInstructions = ArchiveLayout_XL
      then (Inr originalInstructions,
            [Log Info ''ArchiveXL autoconversion to REDmod not supported yet!'',
             ShowInfoNotification ''REDmodArchiveNOTautoconverted''
               (name modInfo @
                '' installed as an old-style archive, ArchiveXL can'' @ [CHR 0x27] @
                ''t be autoconverted to REDmod yet!'')])
      else
        (let redmodInfoWithAutoconvertTag = modInfoTaggedAsAutoconverted h modInfo;
             redmodModuleName = name redmodInfoWithAutoconvertTag;
             redmodVersion = version_v redmodInfoWithAutoconvertTag;
             destinationDirWithModnamePrefix = join [REDMOD_BASEDIR, redmodModuleName, sep];
             destinationArchiveDirWithModnamePrefix =
               join [destinationDirWithModnamePrefix, REDMOD_ARCHIVES_DIRNAME, sep];
             infoJson = REDmodInfo redmodModuleName redmodVersion;
             generateInfoJsonInstruction =
               GenerateFile (jsonpp h infoJson)
                 (join [destinationDirWithModnamePrefix, REDMOD_INFO_FILENAME]);
             l0 = [Log Debug ''Transforming Archive instructions to REDmod'',
                   Log Debug ''Original instructions: ''];
             realSourceAndVirtualSourcePairs =
               map (\<lambda>instruction.
                      (replaceFirst ARCHIVE_MOD_CANONICAL_PREFIX
                         destinationArchiveDirWithModnamePrefix (destination instruction),
                       source instruction))
                 (filter isCopy (instructions originalInstructions));
             fileTreeForVirtualREDmodSources =
               fileTreeFromPaths (mapKeys realSourceAndVirtualSourcePairs);
             redmodInstallDetes =
               \<lparr>redmodInfo = infoJson,
                relativeSourceDir = destinationDirWithModnamePrefix,
                relativeDestDir = destinationDirWithModnamePrefix,
                fileTree = fileTreeForVirtualREDmodSources\<rparr>
         in case archiveLayoutAndValidation h redmodInstallDetes of
              (Inl message, l1) \<Rightarrow>
                (Inl (''Failed to generate archive instructions for REDmod: '' @ message),
                 l0 @ l1 @
                 [Log Error (''Failed to generate archive instructions for REDmod: '' @ message)])
            | (Inr archiveInstructions, l1) \<Rightarrow>
                (let redmodInstructionsMappedBackToRealSources =
                       map (mappedBackToRealSource realSourceAndVirtualSourcePairs)
                         archiveInstructions;
                     allREDmodInstructions =
                       redmodInstructionsMappedBackToRealSources @ [generateInfoJsonInstruction];
                     instructionsToInstallArchiveAsREDmod =
                       \<lparr>kind = REDmodTransformedLayout_Archive,
                        instructions = allREDmodInstructions\<rparr>
                 in (Inr instructionsToInstallArchiveAsREDmod,
                     l0 @ l1 @
                     [Log Info ''Generated REDmod instructions for archive'',
                      ShowInfoNotification ''REDmodArchiveAutoconverted''
                        (name modInfo @
                         '' was automatically converted and will be installed as a REDmod ('' @
                         redmodModuleName @ '')!'')]))))"

text \<open>
  The regular expression \<open>^[\[#].+\<close> in the spec's words, for comparison with the code: the
  text starts with \<open>[\<close> or \<open>#\<close> and goes on with a character that does not end the line.
\<close>

definition matchesReshadeHead :: "string \<Rightarrow> bool" where
  "matchesReshadeHead d =
     (case d of
        c # e # rest \<Rightarrow> (c = CHR ''['' \<or> c = CHR ''#'') \<and> \<not> isLineTerminatorAt (e # rest)
      | _ \<Rightarrow> False)"

text \<open>A segment that \<open>path.normalize\<close> leaves alone: not empty, not \<open>.\<close> or \<open>..\<close>, without
  separators.\<close>

definition plainSegment :: "string \<Rightarrow> bool" where
  "plainSegment s \<longleftrightarrow>
     s \<noteq> [] \<and> s \<noteq> ''.'' \<and> s \<noteq> ''..'' \<and> list_all (\<lambda>c. \<not> isPathSeparator c) s"

definition sepFree :: "string \<Rightarrow> bool" where
  "sepFree s \<longleftrightarrow> (\<forall>c \<in> set s. \<not> isPathSeparator c)"

text \<open>
  A replacement text in which \<open>String.replace\<close> finds one of its patterns \<open>$$\<close>, \<open>$&\<close>,
  \<open>$`\<close> or \<open>$'\<close>: a dollar sign followed by one of these four characters.
\<close>

fun hasReplacementPattern :: "string \<Rightarrow> bool" where
  "hasReplacementPattern (c # d # rest) =
     ((c = CHR ''$'' \<and> (d = CHR ''$'' \<or> d = CHR ''&'' \<or> d = CHR 0x60 \<or> d = CHR 0x27))
      \<or> hasReplacementPattern (d # rest))"
| "hasReplacementPattern rest = False"

text \<open>A file system for examples: one readable file.\<close>

definition oneFile :: "string \<Rightarrow> string \<Rightarrow> string \<Rightarrow> string option" where
  "oneFile path content p = (if p = path then Some content else None)"

text \<open>Stand-ins for the three functions \<open>installRedscriptMod_ft\<close> is given, for examples:
  a user who cancels, no extra archive instructions.\<close>

definition userCancels :: "FileTree \<Rightarrow> VortexInstruction list outcome \<times> effect list" where
  "userCancels tree = (Reject ''user chose to cancel installation on conflict'', [])"

definition noExtraInstructions :: "FileTree \<Rightarrow> VortexInstruction list" where
  "noExtraInstructions tree = []"

text \<open>Stand-ins for the helpers of the conversion, for examples: the tag appends
  \<open>_autoconverted\<close> to the name, a path is moved by exchanging its leading directory, and
  \<open>pathIn\<close> is membership.\<close>

definition exampleHelpers :: Helpers where
  "exampleHelpers =
     \<lparr>modInfoTaggedAsAutoconverted = (\<lambda>modInfo. modInfo\<lparr>name := name modInfo @ ''_autoconverted''\<rparr>),
      jsonpp = (\<lambda>info. ''name: '' @ infoName info @ '', version: '' @ infoVersion info),
      moveFromTo = (\<lambda>fromPrefix toPrefix filePath.
                      (filePath,
                       if startsWith filePath fromPrefix
                       then toPrefix @ drop (length fromPrefix) filePath else filePath)),
      pathIn = (\<lambda>paths p. p \<in> set paths)\<rparr>"


section \<open>Helper lemmas\<close>

lemma destination_of_copy_pair: "destination \<circ> (\<lambda>(src, dst). Copy src dst) = snd"
  by (auto simp: fun_eq_iff)

lemma sameSource_instructions:
  "instructionsForSameSourceAndDestPaths files =
     map (\<lambda>f. Copy f f) (filter (\<lambda>f. \<not> endsWith f sep) files)"
  by (induction files)
     (auto simp: instructionsForSameSourceAndDestPaths_def instructionsForSourceToDestPairs_def
        toSamePath_def)

lemma foldl_found_stays:
  "instructions found \<noteq> [] \<Longrightarrow>
   foldl (\<lambda>found layout. if 0 < length (instructions found) then found else layout t)
     found ls = found"
  by (induction ls) auto

lemma foldl_first_matching:
  "instructions found = [] \<Longrightarrow>
   foldl (\<lambda>found layout. if 0 < length (instructions found) then found else layout t)
     found ls =
   (case find (\<lambda>layout. instructions (layout t) \<noteq> []) ls of
      Some layout \<Rightarrow> layout t
    | None \<Rightarrow> if ls = [] then found else last ls t)"
proof (induction ls arbitrary: found)
  case Nil
  then show ?case by simp
next
  case (Cons l ls)
  show ?case
  proof (cases "instructions (l t) = []")
    case True
    with Cons.prems Cons.IH [of "l t"] show ?thesis by (auto split: option.splits)
  next
    case False
    with Cons.prems foldl_found_stays [of "l t" t ls] show ?thesis by simp
  qed
qed



subsection \<open>Paths that normalization leaves alone\<close>


lemma splitBy_not_Nil: "splitBy P s \<noteq> []"
  by (induction s) (auto split: list.splits)

lemma splitBy_append_sep: "P c \<Longrightarrow> splitBy P (a @ c # b) = splitBy P a @ splitBy P b"
proof (induction a)
  case Nil
  then show ?case by simp
next
  case (Cons x a)
  then show ?case
    using splitBy_not_Nil [of P a] by (cases "splitBy P a") auto
qed

lemma splitBy_no_sep: "\<forall>c \<in> set s. \<not> P c \<Longrightarrow> splitBy P s = [s]"
  by (induction s) auto


lemma isPathSeparator_bslash: "isPathSeparator bslash"
  by (simp add: isPathSeparator_def)

lemma splitBy_joinWith:
  "segs \<noteq> [] \<Longrightarrow> \<forall>s \<in> set segs. sepFree s \<Longrightarrow>
   splitBy isPathSeparator (joinWith sep segs) = segs"
proof (induction segs rule: induct_list012)
  case 1
  then show ?case by simp
next
  case (2 x)
  then show ?case by (simp add: splitBy_no_sep sepFree_def)
next
  case (3 x y ys)
  then show ?case
    by (simp add: sep_def splitBy_append_sep isPathSeparator_bslash splitBy_no_sep sepFree_def)
qed

lemma plainSegment_sepFree: "plainSegment s \<Longrightarrow> sepFree s"
  by (simp add: plainSegment_def sepFree_def list_all_iff)

lemma foldl_normStep_plain:
  "\<forall>s \<in> set segs. s = [] \<or> plainSegment s \<Longrightarrow>
   foldl (normStep a) st segs = st @ filter (\<lambda>s. s \<noteq> []) segs"
  by (induction segs arbitrary: st) (auto simp: normStep_def plainSegment_def)

lemma normalizeString_joinWith:
  assumes "segs \<noteq> []" and "\<forall>s \<in> set segs. s = [] \<or> plainSegment s"
  shows "normalizeString (joinWith sep segs) a = joinWith sep (filter (\<lambda>s. s \<noteq> []) segs)"
proof -
  have "\<forall>s \<in> set segs. sepFree s"
    using assms(2) plainSegment_sepFree by (auto simp: sepFree_def)
  with assms show ?thesis
    by (simp add: normalizeString_def splitBy_joinWith foldl_normStep_plain)
qed

lemma joinWith_Nil_iff: "joinWith sep segs = [] \<longleftrightarrow> segs = [] \<or> segs = [[]]"
  by (induction segs rule: induct_list012) (auto simp: sep_def)

lemma last_joinWith_sep:
  "\<forall>s \<in> set segs. sepFree s \<Longrightarrow> joinWith sep segs \<noteq> [] \<Longrightarrow>
   isPathSeparator (last (joinWith sep segs)) \<longleftrightarrow> last segs = []"
proof (induction segs rule: induct_list012)
  case 1
  then show ?case by simp
next
  case (2 x)
  then show ?case by (auto simp: sepFree_def)
next
  case (3 x y ys)
  show ?case
  proof (cases "joinWith sep (y # ys) = []")
    case True
    then have "y # ys = [[]]" using joinWith_Nil_iff [of "y # ys"] by simp
    with True show ?thesis by (simp add: sep_def isPathSeparator_bslash)
  next
    case False
    with 3 show ?thesis by (simp add: sep_def)
  qed
qed

lemma normalize_plain:
  assumes segs: "segs \<noteq> []" "\<forall>s \<in> set segs. s = [] \<or> plainSegment s"
    and hd: "plainSegment (hd segs)"
    and nodrive: "\<not> hasDrive (joinWith sep segs)"
  shows "normalize_path (joinWith sep segs) =
           joinWith sep (filter (\<lambda>s. s \<noteq> []) segs) @ (if last segs = [] then sep else [])"
proof -
  let ?p = "joinWith sep segs"
  let ?J = "joinWith sep (filter (\<lambda>s. s \<noteq> []) segs)"
  obtain x xs where sx: "segs = x # xs" using segs(1) by (cases segs) auto
  with hd have x: "plainSegment x" by simp
  then obtain c cs where xc: "x = c # cs" by (cases x) (auto simp: plainSegment_def)
  with x have c: "\<not> isPathSeparator c" by (simp add: plainSegment_def)
  have pc: "\<exists>r. ?p = c # r" using sx xc by (cases xs) auto
  then obtain r where pr: "?p = c # r" by blast
  have sf: "\<forall>s \<in> set segs. sepFree s"
    using segs(2) plainSegment_sepFree by (auto simp: sepFree_def)
  have J: "?J \<noteq> []"
    using sx xc by (cases "filter (\<lambda>s. s \<noteq> []) xs") auto
  have ns: "normalizeString ?p True = ?J"
    using normalizeString_joinWith [OF segs] by simp
  have lastp: "isPathSeparator (last ?p) \<longleftrightarrow> last segs = []"
    using last_joinWith_sep [OF sf] pr by simp
  show ?thesis
  proof (cases r)
    case Nil
    with pr have p1: "?p = [c]" by simp
    have "xs = []"
    proof (rule ccontr)
      assume "xs \<noteq> []"
      then obtain y ys where "xs = y # ys" by (cases xs) auto
      with sx xc p1 show False by (simp add: sep_def)
    qed
    with sx xc p1 have "segs = [[c]]" by simp
    with c show ?thesis by (simp add: normalize_path_def isPathSeparator_def)
  next
    case (Cons d r')
    with pr have p2: "?p = c # d # r'" by simp
    have nd: "\<not> (isWindowsDeviceRoot c \<and> d = CHR '':'')" using nodrive p2 by simp
    have "normalize_path ?p = normalizeTail ?p 0 False"
      using p2 c nd by (auto simp: normalize_path_def)
    also have "\<dots> = ?J @ (if last segs = [] then sep else [])"
      using ns J lastp p2 by (simp add: normalizeTail_def Let_def)
    finally show ?thesis .
  qed
qed

lemma join_simple:
  assumes "filter (\<lambda>a. a \<noteq> []) parts = p # ps" and "p = c # cs" and "\<not> isPathSeparator c"
  shows "join parts = normalize_path (joinWith sep (p # ps))"
proof -
  have "\<exists>r. joinWith sep (p # ps) = c # r" using assms(2) by (cases ps) auto
  then obtain r where "joinWith sep (p # ps) = c # r" by blast
  with assms show ?thesis by (simp add: join_def Let_def)
qed

lemma REDS_prefix: "REDS_MOD_CANONICAL_PATH_PREFIX = ''r6'' @ sep @ ''scripts''"
  by code_simp

lemma join_reds:
  assumes m: "plainSegment m" and b: "plainSegment b"
  shows "join [REDS_MOD_CANONICAL_PATH_PREFIX, m, b] = ''r6'' @ sep @ ''scripts'' @ sep @ m @ sep @ b"
proof -
  have mb: "m \<noteq> []" "b \<noteq> []" using m b by (auto simp: plainSegment_def)
  have "join [REDS_MOD_CANONICAL_PATH_PREFIX, m, b]
          = normalize_path (joinWith sep [''r6'' @ sep @ ''scripts'', m, b])"
    using mb by (intro join_simple [where c = "CHR ''r''"])
      (auto simp: REDS_prefix isPathSeparator_def bslash_def)
  also have "joinWith sep [''r6'' @ sep @ ''scripts'', m, b] = joinWith sep [''r6'', ''scripts'', m, b]"
    by simp
  also have "normalize_path \<dots> = joinWith sep (filter (\<lambda>s. s \<noteq> []) [''r6'', ''scripts'', m, b]) @ []"
    using m b mb by (subst normalize_plain) (auto simp: plainSegment_def isPathSeparator_def bslash_def)
  also have "\<dots> = ''r6'' @ sep @ ''scripts'' @ sep @ m @ sep @ b"
    using mb by simp
  finally show ?thesis .
qed



subsection \<open>Base names and the synthesized mod name\<close>


lemma lastComponent_sepFree: "sepFree (lastComponent s)"
  unfolding lastComponent_def sepFree_def
  by (auto dest: set_takeWhileD)

lemma basename_with_extension_plain:
  assumes "extname f \<noteq> []"
  shows "plainSegment (basename f)"
proof -
  let ?b = "lastComponent (afterDrive f)"
  let ?e = "takeWhile (\<lambda>c. c \<noteq> CHR ''.'') (rev ?b)"
  from assms have dot: "CHR ''.'' \<in> set ?b" and len: "Suc (length ?e) \<noteq> length ?b"
    and dd: "?b \<noteq> ''..''"
    by (auto simp: extname_def Let_def split: if_splits)
  from dot have ne: "?b \<noteq> []" by auto
  have "?b \<noteq> ''.''"
  proof
    assume "?b = ''.''"
    with len show False by simp
  qed
  with ne dd lastComponent_sepFree [of "afterDrive f"] show ?thesis
    by (simp add: plainSegment_def basename_def sepFree_def list_all_iff)
qed

lemma lastComponent_append:
  assumes "sepFree y" and "y \<noteq> []"
  shows "lastComponent (x @ sep @ y) = y"
proof -
  have r: "rev (x @ sep @ y) = rev y @ bslash # rev x" by (simp add: sep_def)
  from assms obtain c cs where rc: "rev y = c # cs" by (cases "rev y") auto
  with assms(1) have "\<not> isPathSeparator c"
    by (metis list.set_intros(1) sepFree_def set_rev)
  then have d: "dropWhile isPathSeparator (rev y @ bslash # rev x) = rev y @ bslash # rev x"
    using rc by simp
  have all: "\<forall>c \<in> set (rev y). \<not> isPathSeparator c" using assms(1) by (simp add: sepFree_def)
  have "takeWhile (\<lambda>c. \<not> isPathSeparator c) (rev y @ bslash # rev x) = rev y"
    using all by (simp add: takeWhile_tail isPathSeparator_bslash)
  with d r show ?thesis unfolding lastComponent_def by (simp only: rev_rev_ident)
qed

lemma not_device_bslash: "\<not> isWindowsDeviceRoot bslash"
  by (simp add: isWindowsDeviceRoot_def bslash_def)

lemma afterDrive_append:
  "\<exists>x'. afterDrive (x @ sep @ y) = x' @ sep @ y"
proof (cases "hasDrive (x @ sep @ y)")
  case False
  then show ?thesis by (auto simp: afterDrive_def)
next
  case True
  show ?thesis
  proof (cases x)
    case Nil
    with True show ?thesis by (cases y) (auto simp: sep_def not_device_bslash)
  next
    case (Cons c cs)
    show ?thesis
    proof (cases cs)
      case Nil
      with Cons True show ?thesis by (auto simp: sep_def bslash_def)
    next
      case (Cons d ds)
      with \<open>x = c # cs\<close> True show ?thesis by (auto simp: afterDrive_def)
    qed
  qed
qed

lemma makeModName_strips_installing:
  assumes "plainSegment m"
  shows "makeModName (dir @ sep @ m @ ''.installing'') = m"
proof -
  let ?suf = "''.installing''"
  let ?p = "dir @ sep @ m @ ?suf"
  have m: "m \<noteq> []" "sepFree m" using assms plainSegment_sepFree by (auto simp: plainSegment_def)
  have sf: "sepFree (m @ ?suf)"
    using m(2) by (auto simp: sepFree_def isPathSeparator_def bslash_def)
  obtain x' where ad: "afterDrive (dir @ sep @ (m @ ?suf)) = x' @ sep @ (m @ ?suf)"
    using afterDrive_append by blast
  have lc: "lastComponent (afterDrive ?p) = m @ ?suf"
    using ad lastComponent_append [OF sf] by simp
  have ne: "?suf \<noteq> ?p"
  proof
    assume "?suf = ?p"
    then have "length ?suf = length ?p" by simp
    then show False by (simp add: sep_def)
  qed
  have ew: "endsWith (m @ ?suf) ?suf" by (simp add: endsWith_def)
  show ?thesis
    using lc ne ew m(1) by (simp add: makeModName_def basenameExt_def Let_def)
qed

lemma relocated_instructions:
  assumes m: "plainSegment m" and fs: "\<forall>f \<in> set fs. matchRedscript f"
  shows "instructionsForSourceToDestPairs (map (toDirInPath REDS_MOD_CANONICAL_PATH_PREFIX m) fs)
       = map (\<lambda>f. Copy f (''r6'' @ sep @ ''scripts'' @ sep @ m @ sep @ basename f))
           (filter (\<lambda>f. \<not> endsWith f sep) fs)"
  using fs
proof (induction fs)
  case Nil
  then show ?case by (simp add: instructionsForSourceToDestPairs_def)
next
  case (Cons f fs)
  then have "extname f \<noteq> []"
    by (simp add: matchRedscript_def REDS_MOD_CANONICAL_EXTENSION_def)
  then have "plainSegment (basename f)" by (rule basename_with_extension_plain)
  with m have "join [REDS_MOD_CANONICAL_PATH_PREFIX, m, basename f]
        = ''r6'' @ sep @ ''scripts'' @ sep @ m @ sep @ basename f"
    by (rule join_reds)
  with Cons show ?case
    by (simp add: instructionsForSourceToDestPairs_def toDirInPath_def)
qed

lemma same_instructions:
  "instructionsForSourceToDestPairs (map toSamePath fs)
     = map (\<lambda>f. Copy f f) (filter (\<lambda>f. \<not> endsWith f sep) fs)"
  using sameSource_instructions by (simp add: instructionsForSameSourceAndDestPaths_def)



subsection \<open>The INI paths and the regular expression\<close>


lemma find_filter_same: "find P (filter P xs) = find P xs"
  by (induction xs) auto

lemma dotRun_pos: "0 < dotRun s \<longleftrightarrow> s \<noteq> [] \<and> \<not> isLineTerminatorAt s"
  by (cases s) (auto simp: isLineTerminatorAt_def)

lemma replace_leaves_iff: "replaceReshadeRegex d = d \<longleftrightarrow> \<not> matchesReshadeHead d"
proof (cases d)
  case Nil
  then show ?thesis
    by (simp add: replaceReshadeRegex_def reshadeRegexMatch_def matchesReshadeHead_def)
next
  case (Cons c cs)
  show ?thesis
  proof (cases cs)
    case Nil
    with Cons show ?thesis
      by (simp add: replaceReshadeRegex_def reshadeRegexMatch_def matchesReshadeHead_def)
  next
    case (Cons e rest)
    have "drop (dotRun (e # rest)) (e # rest) \<noteq> c # e # rest"
    proof
      assume "drop (dotRun (e # rest)) (e # rest) = c # e # rest"
      then have "length (drop (dotRun (e # rest)) (e # rest)) = length (c # e # rest)" by simp
      then show False by simp
    qed
    with Cons \<open>d = c # cs\<close> show ?thesis
      using dotRun_pos [of "e # rest"]
      by (auto simp: replaceReshadeRegex_def reshadeRegexMatch_def matchesReshadeHead_def)
  qed
qed

lemma INI_MOD_PATH_eq:
  "INI_MOD_PATH = ''engine'' @ sep @ ''config'' @ sep @ ''platform'' @ sep @ ''pc''"
  by code_simp

lemma RESHADE_MOD_PATH_eq: "RESHADE_MOD_PATH = ''bin'' @ sep @ ''x64''"
  by code_simp

lemma join_ini:
  assumes b: "plainSegment b"
  shows "join [INI_MOD_PATH, b]
           = ''engine'' @ sep @ ''config'' @ sep @ ''platform'' @ sep @ ''pc'' @ sep @ b"
proof -
  have bn: "b \<noteq> []" using b by (auto simp: plainSegment_def)
  have "join [INI_MOD_PATH, b]
          = normalize_path (joinWith sep [''engine'' @ sep @ ''config'' @ sep @ ''platform'' @ sep @ ''pc'', b])"
    using bn by (intro join_simple [where c = "CHR ''e''"])
      (auto simp: INI_MOD_PATH_eq isPathSeparator_def bslash_def)
  also have "joinWith sep [''engine'' @ sep @ ''config'' @ sep @ ''platform'' @ sep @ ''pc'', b]
               = joinWith sep [''engine'', ''config'', ''platform'', ''pc'', b]"
    by simp
  also have "normalize_path \<dots>
      = joinWith sep (filter (\<lambda>s. s \<noteq> []) [''engine'', ''config'', ''platform'', ''pc'', b]) @ []"
    using b bn by (subst normalize_plain) (auto simp: plainSegment_def isPathSeparator_def bslash_def)
  also have "\<dots> = ''engine'' @ sep @ ''config'' @ sep @ ''platform'' @ sep @ ''pc'' @ sep @ b"
    using bn by simp
  finally show ?thesis .
qed

lemma join_reshade:
  assumes b: "plainSegment b"
  shows "join [RESHADE_MOD_PATH, b] = ''bin'' @ sep @ ''x64'' @ sep @ b"
proof -
  have bn: "b \<noteq> []" using b by (auto simp: plainSegment_def)
  have "join [RESHADE_MOD_PATH, b] = normalize_path (joinWith sep [''bin'' @ sep @ ''x64'', b])"
    using bn by (intro join_simple [where c = "CHR ''b''"])
      (auto simp: RESHADE_MOD_PATH_eq isPathSeparator_def bslash_def)
  also have "joinWith sep [''bin'' @ sep @ ''x64'', b] = joinWith sep [''bin'', ''x64'', b]"
    by simp
  also have "normalize_path \<dots> = joinWith sep (filter (\<lambda>s. s \<noteq> []) [''bin'', ''x64'', b]) @ []"
    using b bn by (subst normalize_plain) (auto simp: plainSegment_def isPathSeparator_def bslash_def)
  also have "\<dots> = ''bin'' @ sep @ ''x64'' @ sep @ b"
    using bn by simp
  finally show ?thesis .
qed

lemma ini_copies:
  assumes g: "\<And>b. plainSegment b \<Longrightarrow> join [d, b] = g b"
  shows "map (\<lambda>f. Copy f (join [d, basename f])) (filter (\<lambda>f. extname f = ''.ini'') files)
   = map (\<lambda>f. Copy f (g (basename f))) (filter (\<lambda>f. extname f = ''.ini'') files)"
proof -
  have "join [d, basename f] = g (basename f)" if "extname f = ''.ini''" for f
    using that basename_with_extension_plain [of f] g by simp
  then show ?thesis by (induction files) auto
qed




lemma toDirInPath_instructions:
  "instructionsForSourceToDestPairs (map (toDirInPath p m) fs)
     = map (\<lambda>f. Copy f (join [p, m, basename f])) (filter (\<lambda>f. \<not> endsWith f sep) fs)"
  by (induction fs) (auto simp: instructionsForSourceToDestPairs_def toDirInPath_def)



subsection \<open>Paths of a REDmod module, replacement, the map of sources\<close>























lemma archiveLayoutAndValidation_right:
  "fst (archiveLayoutAndValidation h detes) =
     Inr (instructionsToMoveAllFromSourceToDestination h (relativeSourceDir detes)
            (relativeDestDir detes)
            (filesUnder (join [relativeSourceDir detes, REDMOD_ARCHIVES_DIRNAME])
               (matchREDmodArchive h) (fileTree detes)))"
  by (simp add: archiveLayoutAndValidation_def Let_def)



section \<open>Instructions are not deduplicated\<close>

text \<open>
  C1, as amended.  The system does not deduplicate.  \<open>instructionsForSourceToDestPairs\<close>
  gives one copy instruction for every pair whose source does not end with the path
  separator, so its copy instructions have pairwise different destinations exactly when
  those pairs have; and the fallback installer's destinations are pairwise different
  exactly when the input paths that are not folders are.
\<close>

theorem pairs_not_deduplicated:
  "length (instructionsForSourceToDestPairs ps)
     = length (filter (\<lambda>(src, _). \<not> endsWith src sep) ps)
   \<and> (distinct (map destination (instructionsForSourceToDestPairs ps))
        \<longleftrightarrow> distinct (map snd (filter (\<lambda>(src, _). \<not> endsWith src sep) ps)))
   \<and> (distinct (map destination (instructionsForSameSourceAndDestPaths files))
        \<longleftrightarrow> distinct (filter (\<lambda>f. \<not> endsWith f sep) files))"
proof -
  have "map destination (map (\<lambda>f. Copy f f) fs) = fs" for fs
    by (induction fs) auto
  then show ?thesis
    by (simp add: instructionsForSourceToDestPairs_def destination_of_copy_pair
        sameSource_instructions)
qed

theorem pairs_not_deduplicated_witness:
  "length (instructionsForSourceToDestPairs [(''a'', ''d''), (''b'', ''d''), (''c'' @ sep, ''e'')]) = 2
   \<and> \<not> distinct (map destination
          (instructionsForSourceToDestPairs [(''a'', ''d''), (''b'', ''d''), (''c'' @ sep, ''e'')]))"
  using pairs_not_deduplicated [of "[(''a'', ''d''), (''b'', ''d''), (''c'' @ sep, ''e'')]" "[]"]
  by (simp add: endsWith_def sep_def bslash_def)

text \<open>
  C1 fails as stated: the JSON installer, given \<open>giweights.json\<close> in two folders, returns
  two copy instructions with the destination \<open>engine\config\giweights.json\<close>.
\<close>

theorem json_same_destination_counterexample:
  "fst (installJsonMod [normalize_path ''a/giweights.json'', normalize_path ''b/giweights.json''] ''stage'')
     = Resolve [Copy (normalize_path ''a/giweights.json'') (normalize_path ''engine/config/giweights.json''),
                Copy (normalize_path ''b/giweights.json'') (normalize_path ''engine/config/giweights.json'')]"
  by code_simp


section \<open>The JSON installer and a misplaced \<open>options.json\<close>\<close>

text \<open>
  C5, as amended.  For the file list \<open>["random\\options.json"]\<close> and the game id
  \<open>cyberpunk2077\<close>, \<open>testSupported\<close> of the JSON installer does not report support: it
  rejects with the message "Improperly located options.json file found.  We don't know
  where it belongs.", which mentions \<open>options.json\<close>.  The install function has no such
  check: on this list it resolves with one verbatim copy.
\<close>

theorem json_misplaced_options_rejected_by_test:
  "fst (testForJsonMod [normalize_path ''random/options.json''] ''cyberpunk2077'')
     = Reject jsonOptionsMessage
   \<and> str_includes jsonOptionsMessage ''options.json''
   \<and> fst (installJsonMod [normalize_path ''random/options.json''] destinationPath)
       = Resolve [Copy (normalize_path ''random/options.json'') (normalize_path ''random/options.json'')]"
  by code_simp

text \<open>
  C5 fails as stated: on that input \<open>testSupported\<close> does not return \<open>supported = true\<close>,
  and the install function does not reject.
\<close>

theorem json_misplaced_options_counterexample:
  "\<not> reportsSupported (testForJsonMod [normalize_path ''random/options.json''] ''cyberpunk2077'')
   \<and> (case fst (installJsonMod [normalize_path ''random/options.json''] ''stage'') of
         Reject m \<Rightarrow> False | _ \<Rightarrow> True)"
  by code_simp


section \<open>The fallback installer\<close>

text \<open>
  C8, as amended.  For every file list, \<open>testSupported\<close> of the fallback installer
  reports \<open>supported = true\<close> exactly when the game id is \<open>cyberpunk2077\<close>.  Its install
  function never fails: it resolves with one verbatim copy instruction (destination equal
  to source) for every input path that does not end with the path separator, and shows
  the fallback-reached dialog, its only dialog.
\<close>

theorem fallback_test_and_install:
  "fst (testAnyOtherModFallback files gameId)
     = Resolve \<lparr>supported = (gameId = ''cyberpunk2077''), requiredFiles = []\<rparr>
   \<and> fst (installAnyModWithBasicFixes files destinationPath)
       = Resolve (map (\<lambda>f. Copy f f) (filter (\<lambda>f. \<not> endsWith f sep) files))
   \<and> surfaced (snd (installAnyModWithBasicFixes files destinationPath))
       = [FallbackInstallerReachedErrorDialog fallbackMessage files
            (map (\<lambda>f. Copy f f) (filter (\<lambda>f. \<not> endsWith f sep) files))]"
  by (simp add: testAnyOtherModFallback_def installAnyModWithBasicFixes_def Let_def
      unsupportedResult_def supportedResult_def sameSource_instructions surfaced_def
      GAME_ID_def)

theorem fallback_test_and_install_witness:
  "reportsSupported (testAnyOtherModFallback [''readme.txt'', ''docs'' @ sep] ''cyberpunk2077'')
   \<and> fst (installAnyModWithBasicFixes [''readme.txt'', ''docs'' @ sep] ''stage'')
       = Resolve [Copy ''readme.txt'' ''readme.txt'']"
  using fallback_test_and_install [of "[''readme.txt'', ''docs'' @ sep]" "''cyberpunk2077''" "''stage''"]
  by (simp add: reportsSupported_def endsWith_def sep_def bslash_def)

text \<open>
  C8 fails as stated: for another game id the fallback installer reports
  \<open>supported = false\<close>.
\<close>

theorem fallback_other_game_counterexample:
  "fst (testAnyOtherModFallback [''readme.txt''] ''skyrimse'')
     = Resolve \<lparr>supported = False, requiredFiles = []\<rparr>"
  by (simp add: testAnyOtherModFallback_def GAME_ID_def unsupportedResult_def)


section \<open>The mixed detector implies the CET detector\<close>

text \<open>
  C10.  For every file list, if \<open>testForRedCetMixedMod\<close> reports \<open>supported = true\<close> then
  so does \<open>testForCetMod\<close> on the same list; and the pipeline gives the mixed installer
  the priority 35, before the CET installer's 36.
\<close>

theorem redcet_supported_implies_cet_supported:
  "(reportsSupported (testForRedCetMixedMod files gameId)
      \<longrightarrow> reportsSupported (testForCetMod files gameId'))
   \<and> priorityOf RedCetMix = Some 35 \<and> priorityOf CET = Some 36"
proof -
  have "reportsSupported (testForRedCetMixedMod files gameId)
          \<longrightarrow> reportsSupported (testForCetMod files gameId')"
    by (auto simp: reportsSupported_def testForRedCetMixedMod_def testForCetMod_def Let_def
        unsupportedResult_def split: option.splits if_splits)
  moreover have "priorityOf RedCetMix = Some 35 \<and> priorityOf CET = Some 36"
    by code_simp
  ultimately show ?thesis by simp
qed

theorem redcet_supported_implies_cet_supported_witness:
  "reportsSupported
     (testForRedCetMixedMod
        [normalize_path ''bin/x64/plugins/cyber_engine_tweaks/mods/MyMod/init.lua'',
         normalize_path ''r6/scripts/MyMod/a.reds''] ''cyberpunk2077'')
   \<and> reportsSupported
       (testForCetMod
          [normalize_path ''bin/x64/plugins/cyber_engine_tweaks/mods/MyMod/init.lua'',
           normalize_path ''r6/scripts/MyMod/a.reds''] ''cyberpunk2077'')"
proof -
  have h: "reportsSupported
     (testForRedCetMixedMod
        [normalize_path ''bin/x64/plugins/cyber_engine_tweaks/mods/MyMod/init.lua'',
         normalize_path ''r6/scripts/MyMod/a.reds''] ''cyberpunk2077'')"
    by code_simp
  with redcet_supported_implies_cet_supported
         [of "[normalize_path ''bin/x64/plugins/cyber_engine_tweaks/mods/MyMod/init.lua'',
               normalize_path ''r6/scripts/MyMod/a.reds'']" "''cyberpunk2077''" "''cyberpunk2077''"]
  show ?thesis by blast
qed


section \<open>The INI installer: Reshade or not\<close>

text \<open>
  C2, as amended.  For every file list with at least one \<open>.ini\<close> file whose first \<open>.ini\<close>
  file can be read (at the staging path joined with its name), \<open>installIniMod\<close> treats
  the mod as Reshade exactly when the content does \<^emph>\<open>not\<close> match \<open>^[\[#].+\<close>.  Then every
  \<open>.ini\<close> file gets the destination \<open>bin\x64\<basename>\<close>, and every listed path that
  contains \<open>reshade-shaders\<close> and does not end with the separator is copied to \<open>bin\x64\<close>
  joined with the path in which everything up to the last \<open>reshade-shaders\<close> is replaced by
  \<open>reshade-shaders\<close>.  When the content matches, every \<open>.ini\<close> file gets the destination
  \<open>engine\config\platform\pc\<basename>\<close> and nothing else is copied.
\<close>

theorem ini_reshade_when_head_does_not_match:
  assumes first: "find (\<lambda>file. extname file = ''.ini'') files = Some firstIni"
    and content: "readFileSync (join [destinationPath, firstIni]) = Some content"
  shows "fst (installIniMod readFileSync files destinationPath) =
     Resolve
       (if matchesReshadeHead content
        then map (\<lambda>file. Copy file (''engine'' @ sep @ ''config'' @ sep @ ''platform'' @ sep
                                     @ ''pc'' @ sep @ basename file))
               (filter (\<lambda>file. extname file = ''.ini'') files)
        else map (\<lambda>file. Copy file (''bin'' @ sep @ ''x64'' @ sep @ basename file))
               (filter (\<lambda>file. extname file = ''.ini'') files)
             @ map (\<lambda>file. Copy file (join [RESHADE_MOD_PATH, replaceShadersRegex file]))
                 (filter (\<lambda>file. str_includes file ''reshade-shaders'' \<and> \<not> endsWith file sep)
                    files))"
proof -
  have t: "fst (testForReshadeFile readFileSync (filter (\<lambda>file. extname file = ''.ini'') files)
             destinationPath) = Inr (\<not> matchesReshadeHead content)"
    using first content replace_leaves_iff [of content]
    by (simp add: testForReshadeFile_def INI_MOD_EXT_def find_filter_same Let_def)
  obtain l0 where t': "testForReshadeFile readFileSync
      (filter (\<lambda>file. extname file = ''.ini'') files) destinationPath
        = (Inr (\<not> matchesReshadeHead content), l0)"
    using t by (cases "testForReshadeFile readFileSync
      (filter (\<lambda>file. extname file = ''.ini'') files) destinationPath") auto
  show ?thesis
  proof (cases "matchesReshadeHead content")
    case True
    with t' show ?thesis
      by (simp add: installIniMod_def INI_MOD_EXT_def Let_def ini_copies [OF join_ini])
  next
    case False
    with t' show ?thesis
      by (simp add: installIniMod_def INI_MOD_EXT_def Let_def SHADERS_DIR_def
          ini_copies [OF join_reshade])
  qed
qed

theorem ini_reshade_when_head_does_not_match_witness:
  "find (\<lambda>f. extname f = ''.ini'') [''a.ini'', normalize_path ''x/reshade-shaders/Shaders/q.fx'']
     = Some ''a.ini''
   \<and> oneFile (normalize_path ''stage/a.ini'') ''Techniques=x'' (join [''stage'', ''a.ini''])
       = Some ''Techniques=x''
   \<and> \<not> matchesReshadeHead ''Techniques=x''
   \<and> fst (installIniMod (oneFile (normalize_path ''stage/a.ini'') ''Techniques=x'')
            [''a.ini'', normalize_path ''x/reshade-shaders/Shaders/q.fx''] ''stage'')
       = Resolve [Copy ''a.ini'' (normalize_path ''bin/x64/a.ini''),
                  Copy (normalize_path ''x/reshade-shaders/Shaders/q.fx'')
                    (normalize_path ''bin/x64/reshade-shaders/Shaders/q.fx'')]"
proof -
  have h1: "find (\<lambda>f. extname f = ''.ini'')
              [''a.ini'', normalize_path ''x/reshade-shaders/Shaders/q.fx''] = Some ''a.ini''"
    by code_simp
  have h2: "oneFile (normalize_path ''stage/a.ini'') ''Techniques=x'' (join [''stage'', ''a.ini''])
              = Some ''Techniques=x''"
    by code_simp
  have h3: "\<not> matchesReshadeHead ''Techniques=x''"
    by code_simp
  have h4: "map (\<lambda>f. Copy f (''bin'' @ sep @ ''x64'' @ sep @ basename f))
              (filter (\<lambda>f. extname f = ''.ini'')
                 [''a.ini'', normalize_path ''x/reshade-shaders/Shaders/q.fx''])
            @ map (\<lambda>f. Copy f (join [RESHADE_MOD_PATH, replaceShadersRegex f]))
                (filter (\<lambda>f. str_includes f ''reshade-shaders'' \<and> \<not> endsWith f sep)
                   [''a.ini'', normalize_path ''x/reshade-shaders/Shaders/q.fx''])
            = [Copy ''a.ini'' (normalize_path ''bin/x64/a.ini''),
               Copy (normalize_path ''x/reshade-shaders/Shaders/q.fx'')
                 (normalize_path ''bin/x64/reshade-shaders/Shaders/q.fx'')]"
    by code_simp
  from ini_reshade_when_head_does_not_match
         [where readFileSync = "oneFile (normalize_path ''stage/a.ini'') ''Techniques=x''"
            and destinationPath = "''stage''" and content = "''Techniques=x''", OF h1 h2]
       h3 h4
  have "fst (installIniMod (oneFile (normalize_path ''stage/a.ini'') ''Techniques=x'')
            [''a.ini'', normalize_path ''x/reshade-shaders/Shaders/q.fx''] ''stage'')
       = Resolve [Copy ''a.ini'' (normalize_path ''bin/x64/a.ini''),
                  Copy (normalize_path ''x/reshade-shaders/Shaders/q.fx'')
                    (normalize_path ''bin/x64/reshade-shaders/Shaders/q.fx'')]"
    by simp
  with h1 h2 h3 show ?thesis by blast
qed

text \<open>
  C2 fails as stated: the content \<open>[Settings]\<close> matches the regular expression, and the
  \<open>.ini\<close> file is sent to \<open>engine\config\platform\pc\<close>, not to \<open>bin\x64\<close>.
\<close>

theorem ini_matching_head_counterexample:
  "matchesReshadeHead ''[Settings]''
   \<and> fst (installIniMod (oneFile (normalize_path ''stage/a.ini'') ''[Settings]'') [''a.ini''] ''stage'')
       = Resolve [Copy ''a.ini'' (normalize_path ''engine/config/platform/pc/a.ini'')]"
  by code_simp


section \<open>The archive installer: first layout, then the count\<close>

text \<open>
  C4, as amended.  \<open>installArchiveOnlyMod\<close> tries the layouts in the order Canon,
  Heritage, Other and chooses the first that produces at least one instruction (when none
  does, the empty result of Other).  When the chosen layout has no instruction the install
  rejects after an error log, without a dialog.  When it has instructions but their number
  differs from the number of files in the archive, the install rejects and the
  structure-error dialog is shown.  Otherwise the chosen instructions are returned.
\<close>

theorem archive_first_layout_then_count_check:
  "chosenArchiveInstructions files =
     (case find (\<lambda>layout. instructions (layout (fileTreeFromPaths files)) \<noteq> [])
             [archiveCanonInstructions, archiveOldToNewCanonInstructions,
              archiveOtherDirsToCanonInstructions] of
        Some layout \<Rightarrow> layout (fileTreeFromPaths files)
      | None \<Rightarrow> archiveOtherDirsToCanonInstructions (fileTreeFromPaths files))
   \<and> (instructions (chosenArchiveInstructions files) = [] \<longrightarrow>
        fst (installArchiveOnlyMod files destinationPath) = Reject archiveNoInstructionsMessage
        \<and> surfaced (snd (installArchiveOnlyMod files destinationPath)) = [])
   \<and> (instructions (chosenArchiveInstructions files) \<noteq> []
        \<and> length (instructions (chosenArchiveInstructions files))
            \<noteq> length (filesUnder FILETREE_ROOT Glob_Any (fileTreeFromPaths files)) \<longrightarrow>
        fst (installArchiveOnlyMod files destinationPath) = Reject archiveConflictMessage
        \<and> surfaced (snd (installArchiveOnlyMod files destinationPath))
            = [ShowArchiveStructureErrorDialog archiveConflictMessage files])
   \<and> (instructions (chosenArchiveInstructions files) \<noteq> []
        \<and> length (instructions (chosenArchiveInstructions files))
            = length (filesUnder FILETREE_ROOT Glob_Any (fileTreeFromPaths files)) \<longrightarrow>
        fst (installArchiveOnlyMod files destinationPath)
          = Resolve (instructions (chosenArchiveInstructions files)))"
proof -
  have chosen: "chosenArchiveInstructions files =
     (case find (\<lambda>layout. instructions (layout (fileTreeFromPaths files)) \<noteq> [])
             [archiveCanonInstructions, archiveOldToNewCanonInstructions,
              archiveOtherDirsToCanonInstructions] of
        Some layout \<Rightarrow> layout (fileTreeFromPaths files)
      | None \<Rightarrow> archiveOtherDirsToCanonInstructions (fileTreeFromPaths files))"
    unfolding chosenArchiveInstructions_def useFirstMatchingLayoutForInstructions_def
      possibleLayoutsToTryInOrder_def
    by (subst foldl_first_matching) simp_all
  have none: "instructions (chosenArchiveInstructions files) = [] \<longrightarrow>
        fst (installArchiveOnlyMod files destinationPath) = Reject archiveNoInstructionsMessage
        \<and> surfaced (snd (installArchiveOnlyMod files destinationPath)) = []"
    by (simp add: installArchiveOnlyMod_def Let_def surfaced_def)
  have differ: "instructions (chosenArchiveInstructions files) \<noteq> []
        \<and> length (instructions (chosenArchiveInstructions files))
            \<noteq> length (filesUnder FILETREE_ROOT Glob_Any (fileTreeFromPaths files)) \<longrightarrow>
        fst (installArchiveOnlyMod files destinationPath) = Reject archiveConflictMessage
        \<and> surfaced (snd (installArchiveOnlyMod files destinationPath))
            = [ShowArchiveStructureErrorDialog archiveConflictMessage files]"
    by (simp add: installArchiveOnlyMod_def Let_def surfaced_def)
  have same: "instructions (chosenArchiveInstructions files) \<noteq> []
        \<and> length (instructions (chosenArchiveInstructions files))
            = length (filesUnder FILETREE_ROOT Glob_Any (fileTreeFromPaths files)) \<longrightarrow>
        fst (installArchiveOnlyMod files destinationPath)
          = Resolve (instructions (chosenArchiveInstructions files))"
    by (simp add: installArchiveOnlyMod_def Let_def)
  from chosen none differ same show ?thesis by blast
qed

theorem archive_first_layout_then_count_check_witness:
  "instructions (chosenArchiveInstructions [''X.ARCHIVE'']) = []
   \<and> fst (installArchiveOnlyMod [''X.ARCHIVE''] ''stage'') = Reject archiveNoInstructionsMessage
   \<and> instructions (chosenArchiveInstructions [normalize_path ''archive/pc/patch/a.archive''])
       = [Copy (normalize_path ''archive/pc/patch/a.archive'') (normalize_path ''archive/pc/mod/a.archive'')]
   \<and> fst (installArchiveOnlyMod [normalize_path ''archive/pc/patch/a.archive''] ''stage'')
       = Resolve [Copy (normalize_path ''archive/pc/patch/a.archive'')
                    (normalize_path ''archive/pc/mod/a.archive'')]
   \<and> length (instructions (chosenArchiveInstructions
                [normalize_path ''archive/pc/mod/a.archive'', ''readme.txt''])) = 1
   \<and> surfaced (snd (installArchiveOnlyMod
                [normalize_path ''archive/pc/mod/a.archive'', ''readme.txt''] ''stage''))
       = [ShowArchiveStructureErrorDialog archiveConflictMessage
            [normalize_path ''archive/pc/mod/a.archive'', ''readme.txt'']]"
proof -
  have e1: "instructions (chosenArchiveInstructions [''X.ARCHIVE'']) = []"
    by code_simp
  have e2: "instructions (chosenArchiveInstructions [normalize_path ''archive/pc/patch/a.archive''])
       = [Copy (normalize_path ''archive/pc/patch/a.archive'') (normalize_path ''archive/pc/mod/a.archive'')]"
    by code_simp
  have e3: "length (filesUnder FILETREE_ROOT Glob_Any
              (fileTreeFromPaths [normalize_path ''archive/pc/patch/a.archive''])) = 1"
    by code_simp
  have e4: "length (instructions (chosenArchiveInstructions
                [normalize_path ''archive/pc/mod/a.archive'', ''readme.txt''])) = 1"
    by code_simp
  have e5: "length (filesUnder FILETREE_ROOT Glob_Any
              (fileTreeFromPaths [normalize_path ''archive/pc/mod/a.archive'', ''readme.txt''])) = 2"
    by code_simp
  from e1 archive_first_layout_then_count_check [of "[''X.ARCHIVE'']" "''stage''"]
  have r1: "fst (installArchiveOnlyMod [''X.ARCHIVE''] ''stage'')
              = Reject archiveNoInstructionsMessage"
    by blast
  from e2 e3 archive_first_layout_then_count_check
               [of "[normalize_path ''archive/pc/patch/a.archive'']" "''stage''"]
  have r2: "fst (installArchiveOnlyMod [normalize_path ''archive/pc/patch/a.archive''] ''stage'')
       = Resolve [Copy (normalize_path ''archive/pc/patch/a.archive'')
                    (normalize_path ''archive/pc/mod/a.archive'')]"
    by simp
  have ne: "instructions (chosenArchiveInstructions
              [normalize_path ''archive/pc/mod/a.archive'', ''readme.txt'']) \<noteq> []"
    using e4 by auto
  from ne e4 e5 archive_first_layout_then_count_check
               [of "[normalize_path ''archive/pc/mod/a.archive'', ''readme.txt'']" "''stage''"]
  have r3: "surfaced (snd (installArchiveOnlyMod
                [normalize_path ''archive/pc/mod/a.archive'', ''readme.txt''] ''stage''))
       = [ShowArchiveStructureErrorDialog archiveConflictMessage
            [normalize_path ''archive/pc/mod/a.archive'', ''readme.txt'']]"
    by simp
  from e1 e2 e4 r1 r2 r3 show ?thesis by blast
qed

text \<open>
  C4 fails as stated: the detector accepts \<open>X.ARCHIVE\<close>, no layout produces an instruction
  for it (fewer than the one file of the archive), and the install rejects without
  showing any dialog.
\<close>

theorem archive_uppercase_counterexample:
  "reportsSupported (testForArchiveOnlyMod [''X.ARCHIVE''] ''cyberpunk2077'')
   \<and> length (instructions (chosenArchiveInstructions [''X.ARCHIVE'']))
       < length (filesUnder FILETREE_ROOT Glob_Any (fileTreeFromPaths [''X.ARCHIVE'']))
   \<and> fst (installArchiveOnlyMod [''X.ARCHIVE''] ''stage'') = Reject archiveNoInstructionsMessage
   \<and> surfaced (snd (installArchiveOnlyMod [''X.ARCHIVE''] ''stage'')) = []"
  by code_simp


section \<open>The Redscript installer: where relocated files go\<close>

text \<open>
  C9.  When \<open>installRedscriptMod\<close> installs (exactly one layout is present) and the
  synthesized mod name \<open>makeModName destinationPath\<close>, that is
  \<open>path.basename(destinationPath, ".installing")\<close>, is an ordinary directory name, every
  file of the Basedir layout (\<open>.reds\<close> directly in \<open>r6\scripts\<close>) and of the Toplevel layout
  (\<open>.reds\<close> at the root) is copied to \<open>r6\scripts\<name>\<basename>\<close>; the canonical files
  and the archives are copied in place.  For a destination path that ends with
  \<open>\<m>.installing\<close> the synthesized name is \<open>m\<close>.  The installer of
  \<open>installer.redscript.ts\<close> sends the relocated files to the path joined from \<open>r6\scripts\<close>,
  the synthesized name and the basename as well.
\<close>

theorem redscript_relocates_under_mod_name:
  assumes "plainSegment (makeModName destinationPath)" and "length (installable files) = 1"
  shows "fst (installRedscriptMod files destinationPath) =
     Resolve
       (map (\<lambda>f. Copy f f) (filter (\<lambda>f. \<not> endsWith f sep) (canonRedsModFiles files))
        @ map (\<lambda>f. Copy f (''r6'' @ sep @ ''scripts'' @ sep @ makeModName destinationPath
                            @ sep @ basename f))
            (filter (\<lambda>f. \<not> endsWith f sep) (redsDirReds files))
        @ map (\<lambda>f. Copy f (''r6'' @ sep @ ''scripts'' @ sep @ makeModName destinationPath
                            @ sep @ basename f))
            (filter (\<lambda>f. \<not> endsWith f sep) (topLevelReds files))
        @ map (\<lambda>f. Copy f f)
            (filter (\<lambda>f. \<not> endsWith f sep) (allCanonicalArchiveOnlyFiles files)))
   \<and> (\<forall>dir m. plainSegment m \<longrightarrow> makeModName (dir @ sep @ m @ ''.installing'') = m)
   \<and> (length (installableLayouts tree) = 1 \<longrightarrow>
        fst (installRedscriptMod_ft prompt extra makeSyntheticName files' tree destinationPath') =
          Resolve
            (map (\<lambda>f. Copy f f)
               (filter (\<lambda>f. \<not> endsWith f sep)
                  (if hasCanonReds tree
                   then concat (map (\<lambda>dir. filesUnder dir Glob_Any tree) (canonSubdirs tree))
                   else []))
             @ map (\<lambda>f. Copy f (join [REDS_MOD_CANONICAL_PATH_PREFIX,
                                        makeSyntheticName destinationPath', basename f]))
                 (filter (\<lambda>f. \<not> endsWith f sep)
                    (if hasBasedirReds tree
                     then filesUnder REDS_MOD_CANONICAL_PATH_PREFIX Glob_Any tree else []))
             @ map (\<lambda>f. Copy f (join [REDS_MOD_CANONICAL_PATH_PREFIX,
                                        makeSyntheticName destinationPath', basename f]))
                 (filter (\<lambda>f. \<not> endsWith f sep)
                    (if hasToplevelReds tree then filesUnder FILETREE_ROOT Glob_Any tree else []))
             @ extra tree))"
proof -
  have a: "\<forall>f \<in> set (redsDirReds files). matchRedscript f" by (simp add: redsDirReds_def)
  have b: "\<forall>f \<in> set (topLevelReds files). matchRedscript f" by (simp add: topLevelReds_def)
  have old: "fst (installRedscriptMod files destinationPath) =
     Resolve
       (map (\<lambda>f. Copy f f) (filter (\<lambda>f. \<not> endsWith f sep) (canonRedsModFiles files))
        @ map (\<lambda>f. Copy f (''r6'' @ sep @ ''scripts'' @ sep @ makeModName destinationPath
                            @ sep @ basename f))
            (filter (\<lambda>f. \<not> endsWith f sep) (redsDirReds files))
        @ map (\<lambda>f. Copy f (''r6'' @ sep @ ''scripts'' @ sep @ makeModName destinationPath
                            @ sep @ basename f))
            (filter (\<lambda>f. \<not> endsWith f sep) (topLevelReds files))
        @ map (\<lambda>f. Copy f f)
            (filter (\<lambda>f. \<not> endsWith f sep) (allCanonicalArchiveOnlyFiles files)))"
    using assms(2)
    by (simp add: installRedscriptMod_def Let_def same_instructions
        relocated_instructions [OF assms(1) a] relocated_instructions [OF assms(1) b])
  have strip: "\<forall>dir m. plainSegment m \<longrightarrow> makeModName (dir @ sep @ m @ ''.installing'') = m"
    using makeModName_strips_installing by blast
  have new: "length (installableLayouts tree) = 1 \<longrightarrow>
        fst (installRedscriptMod_ft prompt extra makeSyntheticName files' tree destinationPath') =
          Resolve
            (map (\<lambda>f. Copy f f)
               (filter (\<lambda>f. \<not> endsWith f sep)
                  (if hasCanonReds tree
                   then concat (map (\<lambda>dir. filesUnder dir Glob_Any tree) (canonSubdirs tree))
                   else []))
             @ map (\<lambda>f. Copy f (join [REDS_MOD_CANONICAL_PATH_PREFIX,
                                        makeSyntheticName destinationPath', basename f]))
                 (filter (\<lambda>f. \<not> endsWith f sep)
                    (if hasBasedirReds tree
                     then filesUnder REDS_MOD_CANONICAL_PATH_PREFIX Glob_Any tree else []))
             @ map (\<lambda>f. Copy f (join [REDS_MOD_CANONICAL_PATH_PREFIX,
                                        makeSyntheticName destinationPath', basename f]))
                 (filter (\<lambda>f. \<not> endsWith f sep)
                    (if hasToplevelReds tree then filesUnder FILETREE_ROOT Glob_Any tree else []))
             @ extra tree)"
    by (simp add: installRedscriptMod_ft_def Let_def same_instructions toDirInPath_instructions)
  from old strip new show ?thesis by blast
qed

theorem redscript_relocates_under_mod_name_witness:
  "plainSegment (makeModName (''C:'' @ sep @ ''staging'' @ sep @ ''MyMod'' @ ''.installing''))
   \<and> length (installable [normalize_path ''r6/scripts/Foo.reds'', normalize_path ''archive/pc/mod/'',
                 normalize_path ''archive/pc/mod/Foo.archive'']) = 1
   \<and> fst (installRedscriptMod
            [normalize_path ''r6/scripts/Foo.reds'', normalize_path ''archive/pc/mod/'',
             normalize_path ''archive/pc/mod/Foo.archive'']
            (''C:'' @ sep @ ''staging'' @ sep @ ''MyMod'' @ ''.installing''))
       = Resolve [Copy (normalize_path ''r6/scripts/Foo.reds'') (normalize_path ''r6/scripts/MyMod/Foo.reds''),
                  Copy (normalize_path ''archive/pc/mod/Foo.archive'')
                    (normalize_path ''archive/pc/mod/Foo.archive'')]"
proof -
  let ?F = "[normalize_path ''r6/scripts/Foo.reds'', normalize_path ''archive/pc/mod/'',
             normalize_path ''archive/pc/mod/Foo.archive'']"
  let ?D = "''C:'' @ sep @ ''staging'' @ sep @ ''MyMod'' @ ''.installing''"
  have h1: "plainSegment (makeModName ?D)" by code_simp
  have h2: "length (installable ?F) = 1" by code_simp
  have h3: "map (\<lambda>f. Copy f f) (filter (\<lambda>f. \<not> endsWith f sep) (canonRedsModFiles ?F))
        @ map (\<lambda>f. Copy f (''r6'' @ sep @ ''scripts'' @ sep @ makeModName ?D @ sep @ basename f))
            (filter (\<lambda>f. \<not> endsWith f sep) (redsDirReds ?F))
        @ map (\<lambda>f. Copy f (''r6'' @ sep @ ''scripts'' @ sep @ makeModName ?D @ sep @ basename f))
            (filter (\<lambda>f. \<not> endsWith f sep) (topLevelReds ?F))
        @ map (\<lambda>f. Copy f f)
            (filter (\<lambda>f. \<not> endsWith f sep) (allCanonicalArchiveOnlyFiles ?F))
       = [Copy (normalize_path ''r6/scripts/Foo.reds'') (normalize_path ''r6/scripts/MyMod/Foo.reds''),
          Copy (normalize_path ''archive/pc/mod/Foo.archive'') (normalize_path ''archive/pc/mod/Foo.archive'')]"
    by code_simp
  from redscript_relocates_under_mod_name [OF h1 h2] h3
  have "fst (installRedscriptMod ?F ?D)
       = Resolve [Copy (normalize_path ''r6/scripts/Foo.reds'') (normalize_path ''r6/scripts/MyMod/Foo.reds''),
                  Copy (normalize_path ''archive/pc/mod/Foo.archive'')
                    (normalize_path ''archive/pc/mod/Foo.archive'')]"
    by simp
  with h1 h2 show ?thesis by blast
qed


section \<open>The Redscript installer: exactly one layout\<close>

text \<open>
  C3, as amended.  In both Redscript installers the three layouts are detected
  separately and counted.  The installer of \<open>installers.ts\<close> resolves with instructions,
  and shows nothing, exactly when one layout is present; with more than one it shows an
  error dialog and rejects; with none it rejects after an error log, without a dialog.
  The installer of \<open>installer.redscript.ts\<close> resolves with instructions when exactly one
  layout is present, and otherwise returns whatever
  \<open>promptToFallbackOrFailOnUnresolvableLayout\<close> returns.
\<close>

theorem redscript_exactly_one_layout:
  "length (installable files)
     = (if canonRedsModFiles files \<noteq> [] then 1 else 0)
       + (if redsDirReds files \<noteq> [] then 1 else 0)
       + (if topLevelReds files \<noteq> [] then 1 else 0)
   \<and> (length (installable files) = 0 \<longrightarrow>
        fst (installRedscriptMod files destinationPath) = Reject redsNoneMessage
        \<and> surfaced (snd (installRedscriptMod files destinationPath)) = [])
   \<and> (1 < length (installable files) \<longrightarrow>
        fst (installRedscriptMod files destinationPath) = Reject redsConflictMessage
        \<and> surfaced (snd (installRedscriptMod files destinationPath))
            = [ShowDialog ''error'' redsConflictMessage])
   \<and> (length (installable files) = 1 \<longrightarrow>
        (\<exists>ins. fst (installRedscriptMod files destinationPath) = Resolve ins)
        \<and> surfaced (snd (installRedscriptMod files destinationPath)) = [])
   \<and> length (installableLayouts tree)
       = (if hasToplevelReds tree then 1 else 0) + (if hasBasedirReds tree then 1 else 0)
         + (if hasCanonReds tree then 1 else 0)
   \<and> (length (installableLayouts tree) \<noteq> 1 \<longrightarrow>
        installRedscriptMod_ft prompt extra makeSyntheticName files' tree destinationPath'
          = prompt tree)
   \<and> (length (installableLayouts tree) = 1 \<longrightarrow>
        (\<exists>ins. installRedscriptMod_ft prompt extra makeSyntheticName files' tree destinationPath'
                 = (Resolve ins, [])))"
proof -
  have c1: "length (installable files)
     = (if canonRedsModFiles files \<noteq> [] then 1 else 0)
       + (if redsDirReds files \<noteq> [] then 1 else 0)
       + (if topLevelReds files \<noteq> [] then 1 else 0)"
    by (simp add: installable_def)
  have c2: "length (installable files) = 0 \<longrightarrow>
        fst (installRedscriptMod files destinationPath) = Reject redsNoneMessage
        \<and> surfaced (snd (installRedscriptMod files destinationPath)) = []"
    by (simp add: installRedscriptMod_def Let_def surfaced_def)
  have c3: "1 < length (installable files) \<longrightarrow>
        fst (installRedscriptMod files destinationPath) = Reject redsConflictMessage
        \<and> surfaced (snd (installRedscriptMod files destinationPath))
            = [ShowDialog ''error'' redsConflictMessage]"
    by (simp add: installRedscriptMod_def Let_def surfaced_def)
  have c4: "length (installable files) = 1 \<longrightarrow>
        (\<exists>ins. fst (installRedscriptMod files destinationPath) = Resolve ins)
        \<and> surfaced (snd (installRedscriptMod files destinationPath)) = []"
    by (simp add: installRedscriptMod_def Let_def surfaced_def)
  have c5: "length (installableLayouts tree)
       = (if hasToplevelReds tree then 1 else 0) + (if hasBasedirReds tree then 1 else 0)
         + (if hasCanonReds tree then 1 else 0)"
    by (simp add: installableLayouts_def trueish_def)
  have c6: "length (installableLayouts tree) \<noteq> 1 \<longrightarrow>
        installRedscriptMod_ft prompt extra makeSyntheticName files' tree destinationPath'
          = prompt tree"
    by (simp add: installRedscriptMod_ft_def Let_def)
  have c7: "length (installableLayouts tree) = 1 \<longrightarrow>
        (\<exists>ins. installRedscriptMod_ft prompt extra makeSyntheticName files' tree destinationPath'
                 = (Resolve ins, []))"
    by (simp add: installRedscriptMod_ft_def Let_def)
  from c1 c2 c3 c4 c5 c6 c7 show ?thesis by blast
qed

theorem redscript_exactly_one_layout_witness:
  "length (installable [normalize_path ''sub/Foo.reds'']) = 0
   \<and> fst (installRedscriptMod [normalize_path ''sub/Foo.reds''] ''MyMod.installing'')
       = Reject redsNoneMessage
   \<and> 1 < length (installable [''Foo.reds'', normalize_path ''r6/scripts/Bar.reds''])
   \<and> surfaced (snd (installRedscriptMod [''Foo.reds'', normalize_path ''r6/scripts/Bar.reds'']
                      ''MyMod.installing''))
       = [ShowDialog ''error'' redsConflictMessage]
   \<and> length (installable [normalize_path ''r6/scripts/Bar.reds'']) = 1
   \<and> surfaced (snd (installRedscriptMod [normalize_path ''r6/scripts/Bar.reds'']
                      ''MyMod.installing'')) = []
   \<and> length (installableLayouts
               (fileTreeFromPaths [''Foo.reds'', normalize_path ''r6/scripts/Bar.reds''])) \<noteq> 1
   \<and> installRedscriptMod_ft userCancels noExtraInstructions makeModName
         [''Foo.reds'', normalize_path ''r6/scripts/Bar.reds'']
         (fileTreeFromPaths [''Foo.reds'', normalize_path ''r6/scripts/Bar.reds''])
         ''MyMod.installing''
       = userCancels (fileTreeFromPaths [''Foo.reds'', normalize_path ''r6/scripts/Bar.reds''])"
proof -
  have h0: "length (installable [normalize_path ''sub/Foo.reds'']) = 0"
    by code_simp
  have h2: "1 < length (installable [''Foo.reds'', normalize_path ''r6/scripts/Bar.reds''])"
    by code_simp
  have h1: "length (installable [normalize_path ''r6/scripts/Bar.reds'']) = 1"
    by code_simp
  have h3: "length (installableLayouts
               (fileTreeFromPaths [''Foo.reds'', normalize_path ''r6/scripts/Bar.reds''])) \<noteq> 1"
    by code_simp
  note t0 = redscript_exactly_one_layout
              [of "[normalize_path ''sub/Foo.reds'']" "''MyMod.installing''"]
  note t2 = redscript_exactly_one_layout
              [of "[''Foo.reds'', normalize_path ''r6/scripts/Bar.reds'']" "''MyMod.installing''"
                  "fileTreeFromPaths [''Foo.reds'', normalize_path ''r6/scripts/Bar.reds'']"
                  userCancels noExtraInstructions makeModName
                  "[''Foo.reds'', normalize_path ''r6/scripts/Bar.reds'']" "''MyMod.installing''"]
  note t1 = redscript_exactly_one_layout
              [of "[normalize_path ''r6/scripts/Bar.reds'']" "''MyMod.installing''"]
  from h0 t0 have r0: "fst (installRedscriptMod [normalize_path ''sub/Foo.reds''] ''MyMod.installing'')
       = Reject redsNoneMessage"
    by blast
  from h2 t2 have r2: "surfaced (snd (installRedscriptMod
        [''Foo.reds'', normalize_path ''r6/scripts/Bar.reds''] ''MyMod.installing''))
       = [ShowDialog ''error'' redsConflictMessage]"
    by blast
  from h1 t1 have r1: "surfaced (snd (installRedscriptMod [normalize_path ''r6/scripts/Bar.reds'']
                      ''MyMod.installing'')) = []"
    by blast
  from h3 t2 have r3: "installRedscriptMod_ft userCancels noExtraInstructions makeModName
         [''Foo.reds'', normalize_path ''r6/scripts/Bar.reds'']
         (fileTreeFromPaths [''Foo.reds'', normalize_path ''r6/scripts/Bar.reds''])
         ''MyMod.installing''
       = userCancels (fileTreeFromPaths [''Foo.reds'', normalize_path ''r6/scripts/Bar.reds''])"
    by blast
  from h0 h1 h2 h3 r0 r1 r2 r3 show ?thesis by blast
qed

text \<open>
  C3 fails as stated: the detector accepts \<open>sub\Foo.reds\<close>, none of the three layouts is
  present, and the installer of \<open>installers.ts\<close> rejects without showing a dialog or
  asking the user anything.
\<close>

theorem redscript_no_layout_counterexample:
  "reportsSupported (testForRedscriptMod [normalize_path ''sub/Foo.reds''] ''cyberpunk2077'')
   \<and> length (installable [normalize_path ''sub/Foo.reds'']) = 0
   \<and> fst (installRedscriptMod [normalize_path ''sub/Foo.reds''] ''MyMod.installing'')
       = Reject redsNoneMessage
   \<and> surfaced (snd (installRedscriptMod [normalize_path ''sub/Foo.reds''] ''MyMod.installing'')) = []"
  by code_simp


section \<open>ArchiveXL is not converted\<close>

text \<open>
  C7.  When \<open>transformToREDmodArchiveInstructions\<close> is called with instructions of kind
  \<open>ArchiveLayout.XL\<close> it returns them unchanged, so no \<open>generatefile\<close> instruction is added
  and no destination is rewritten.  With the feature enabled, which is when the function
  is meant to be called, the one thing shown is the info notification that the mod was
  not converted; with the feature disabled nothing is shown.
\<close>

theorem xl_instructions_unchanged:
  assumes "kind originalInstructions = ArchiveLayout_XL"
  shows "fst (transformToREDmodArchiveInstructions h features modInfo originalInstructions)
           = Inr originalInstructions
   \<and> surfaced (snd (transformToREDmodArchiveInstructions h features modInfo
                      originalInstructions))
       = (if REDmodAutoconvertArchives features = Enabled
          then [ShowInfoNotification ''REDmodArchiveNOTautoconverted''
                  (name modInfo @ '' installed as an old-style archive, ArchiveXL can''
                   @ [CHR 0x27] @ ''t be autoconverted to REDmod yet!'')]
          else [])"
  using assms by (simp add: transformToREDmodArchiveInstructions_def surfaced_def)

theorem xl_instructions_unchanged_witness:
  "kind \<lparr>kind = ArchiveLayout_XL,
         instructions = [Copy (normalize_path ''archive/pc/mod/a.xl'') (normalize_path ''archive/pc/mod/a.xl'')]\<rparr>
     = ArchiveLayout_XL
   \<and> fst (transformToREDmodArchiveInstructions exampleHelpers
            \<lparr>REDmodAutoconvertArchives = Enabled\<rparr> \<lparr>name = ''X'', version_v = ''1.0''\<rparr>
            \<lparr>kind = ArchiveLayout_XL,
             instructions = [Copy (normalize_path ''archive/pc/mod/a.xl'')
                               (normalize_path ''archive/pc/mod/a.xl'')]\<rparr>)
       = Inr \<lparr>kind = ArchiveLayout_XL,
              instructions = [Copy (normalize_path ''archive/pc/mod/a.xl'')
                                (normalize_path ''archive/pc/mod/a.xl'')]\<rparr>"
  using xl_instructions_unchanged
          [of "\<lparr>kind = ArchiveLayout_XL,
                instructions = [Copy (normalize_path ''archive/pc/mod/a.xl'')
                                  (normalize_path ''archive/pc/mod/a.xl'')]\<rparr>"
              exampleHelpers "\<lparr>REDmodAutoconvertArchives = Enabled\<rparr>"
              "\<lparr>name = ''X'', version_v = ''1.0''\<rparr>"]
  by simp


section \<open>Archives converted to REDmod\<close>




text \<open>
  Why the tagged name must hold no pattern of \<open>String.replace\<close>: the rewritten destination
  is made with \<open>destination.replace(prefix, directory)\<close>, and in the directory \<open>$$\<close> is read
  as one dollar sign.  For a mod called \<open>A$$\<close> the virtual path then lies under
  \<open>mods\A$_autoconverted\<close>, outside the module directory \<open>mods\A$$_autoconverted\<close>, and no
  copy is returned.  A single dollar sign does no harm.
\<close>

lemma dollar_pattern_in_the_tagged_name:
  "fst (transformToREDmodArchiveInstructions exampleHelpers
          \<lparr>REDmodAutoconvertArchives = Enabled\<rparr> \<lparr>name = ''A$$'', version_v = ''1.0''\<rparr>
          \<lparr>kind = ArchiveLayout_Canon,
           instructions =
             [Copy (normalize_path ''archive/pc/mod/X.archive'')
                (normalize_path ''archive/pc/mod/X.archive'')]\<rparr>)
     = Inr \<lparr>kind = REDmodTransformedLayout_Archive,
            instructions =
              [GenerateFile ''name: A$$_autoconverted, version: 1.0''
                 (normalize_path ''mods/A$$_autoconverted/info.json'')]\<rparr>"
  by code_simp

lemma single_dollar_in_the_tagged_name:
  "\<not> hasReplacementPattern ''Ca$h_autoconverted''
   \<and> fst (transformToREDmodArchiveInstructions exampleHelpers
          \<lparr>REDmodAutoconvertArchives = Enabled\<rparr> \<lparr>name = ''Ca$h'', version_v = ''1.0''\<rparr>
          \<lparr>kind = ArchiveLayout_Canon,
           instructions =
             [Copy (normalize_path ''archive/pc/mod/X.archive'')
                (normalize_path ''archive/pc/mod/X.archive'')]\<rparr>)
     = Inr \<lparr>kind = REDmodTransformedLayout_Archive,
            instructions =
              [Copy (normalize_path ''archive/pc/mod/X.archive'')
                 (normalize_path ''mods/Ca$h_autoconverted/archives/X.archive''),
               GenerateFile ''name: Ca$h_autoconverted, version: 1.0''
                 (normalize_path ''mods/Ca$h_autoconverted/info.json'')]\<rparr>"
  by code_simp

end
